theory Spec2Isabelle
  imports Complex_Main "HOL-Library.Word"
begin

section \<open>The local minimization driver of package optimize (local.go)\<close>

text \<open>
  The development embeds the driver of \<^verbatim>\<open>local.go\<close>: \<^verbatim>\<open>Local\<close>, \<^verbatim>\<open>minimize\<close>,
  \<^verbatim>\<open>copyLocation\<close>, \<^verbatim>\<open>getDefaultMethod\<close>, \<^verbatim>\<open>getStartingLocation\<close>,
  \<^verbatim>\<open>checkConvergence\<close>, \<^verbatim>\<open>invalidate\<close>, \<^verbatim>\<open>evaluate\<close> and \<^verbatim>\<open>update\<close>.
  Pointer arguments that the Go code mutates are passed in and returned; a Go panic is a
  value of type \<open>panic\<close>; the collaborators (objective, method, recorder, clock) are
  records of functions, the stateful ones acting on an abstract world \<open>'w\<close>.
\<close>

subsection \<open>float64: the values and the comparisons the driver uses\<close>

text \<open>
  The driver only compares floating-point numbers, tests them for NaN and the
  infinities, and takes absolute values and maxima (inside the infinity norm). A
  \<^verbatim>\<open>float64\<close> is therefore a NaN, one of the two infinities, or a finite number; the
  finite numbers are taken from the reals, which contain every finite double, and the two
  zeros are identified (Go's comparisons do not tell them apart). No rounding occurs in
  any operation modelled here.
\<close>

datatype float64 = NaN | NegInf | Finite real | PosInf

text \<open>Go's \<^verbatim>\<open><\<close>, \<^verbatim>\<open>==\<close>, \<^verbatim>\<open>!=\<close> and \<^verbatim>\<open><=\<close> on float64: every comparison with a NaN
  operand is false, except \<^verbatim>\<open>!=\<close>, which is true.\<close>

fun flt :: "float64 \<Rightarrow> float64 \<Rightarrow> bool" where
  "flt NaN _ = False"
| "flt _ NaN = False"
| "flt PosInf _ = False"
| "flt _ NegInf = False"
| "flt NegInf _ = True"
| "flt (Finite a) (Finite b) = (a < b)"
| "flt (Finite a) PosInf = True"

definition feq :: "float64 \<Rightarrow> float64 \<Rightarrow> bool" where
  "feq x y = (x \<noteq> NaN \<and> y \<noteq> NaN \<and> x = y)"

definition fne :: "float64 \<Rightarrow> float64 \<Rightarrow> bool" where
  "fne x y = (\<not> feq x y)"

definition fle :: "float64 \<Rightarrow> float64 \<Rightarrow> bool" where
  "fle x y = (flt x y \<or> feq x y)"

text \<open>\<^verbatim>\<open>math.IsNaN\<close>, \<^verbatim>\<open>math.IsInf(f, sign)\<close>, \<^verbatim>\<open>math.Abs\<close> and \<^verbatim>\<open>math.Max\<close> of
  the Go standard library (\<^verbatim>\<open>Max\<close> returns +Inf if either argument is +Inf, else NaN
  if either is NaN).\<close>

definition IsNaN :: "float64 \<Rightarrow> bool" where
  "IsNaN f = (f = NaN)"

definition IsInf :: "float64 \<Rightarrow> int \<Rightarrow> bool" where
  "IsInf f sign = (if sign > 0 then f = PosInf
                   else if sign < 0 then f = NegInf
                   else f = PosInf \<or> f = NegInf)"

fun math_Abs :: "float64 \<Rightarrow> float64" where
  "math_Abs NaN = NaN"
| "math_Abs NegInf = PosInf"
| "math_Abs PosInf = PosInf"
| "math_Abs (Finite a) = Finite \<bar>a\<bar>"

definition math_Max :: "float64 \<Rightarrow> float64 \<Rightarrow> float64" where
  "math_Max x y =
     (if IsInf x 1 \<or> IsInf y 1 then PosInf
      else if IsNaN x \<or> IsNaN y then NaN
      else if flt y x then x else y)"

text \<open>\<^verbatim>\<open>floats.Equal\<close> and the infinity-norm branch of \<^verbatim>\<open>floats.Norm\<close> (package
  \<^verbatim>\<open>github.com/gonum/floats\<close>): \<^verbatim>\<open>Equal\<close> compares lengths and then the elements with
  \<^verbatim>\<open>!=\<close>; \<^verbatim>\<open>Norm(s, +Inf)\<close> is 0 on the empty slice and otherwise the running
  \<^verbatim>\<open>math.Max\<close> of the absolute values, starting from 0.\<close>

fun floats_Equal_loop :: "float64 list \<Rightarrow> float64 list \<Rightarrow> bool" where
  "floats_Equal_loop (val # s1) (v2 # s2) =
     (if fne v2 val then False else floats_Equal_loop s1 s2)"
| "floats_Equal_loop _ _ = True"

definition floats_Equal :: "float64 list \<Rightarrow> float64 list \<Rightarrow> bool" where
  "floats_Equal s1 s2 =
     (if length s1 \<noteq> length s2 then False else floats_Equal_loop s1 s2)"

definition floats_Norm_Inf :: "float64 list \<Rightarrow> float64" where
  "floats_Norm_Inf s =
     (if length s = 0 then Finite 0
      else foldl (\<lambda>norm val. math_Max norm (math_Abs val)) (Finite 0) s)"

subsection \<open>Slices and symmetric matrices\<close>

text \<open>
  A slice that the code compares with \<^verbatim>\<open>nil\<close> (\<^verbatim>\<open>Location.Gradient\<close>) is a
  \<open>float64 list option\<close>, \<open>None\<close> being \<^verbatim>\<open>nil\<close>; \<^verbatim>\<open>Location.X\<close> is never compared
  with \<^verbatim>\<open>nil\<close> and is a plain list. The built-in \<^verbatim>\<open>copy(dst, src)\<close> overwrites the
  first \<^verbatim>\<open>min(len(dst), len(src))\<close> elements of \<^verbatim>\<open>dst\<close>.
\<close>

definition copy_slice :: "'a list \<Rightarrow> 'a list \<Rightarrow> 'a list" where
  "copy_slice dst src = take (length dst) src @ drop (length src) dst"

definition len :: "float64 list option \<Rightarrow> nat" where
  "len s = (case s of None \<Rightarrow> 0 | Some xs \<Rightarrow> length xs)"

definition elems :: "float64 list option \<Rightarrow> float64 list" where
  "elems s = (case s of None \<Rightarrow> [] | Some xs \<Rightarrow> xs)"

text \<open>
  Modelled from the spec: the helper \<^verbatim>\<open>resize(x, dim)\<close> is not among the sources. The
  spec only says that the working Location is copied over the best-known one, so
  \<^verbatim>\<open>resize\<close> is taken to return a slice of length \<^verbatim>\<open>dim\<close> (reusing \<^verbatim>\<open>x\<close> where it
  can, and staying \<^verbatim>\<open>nil\<close> when a \<^verbatim>\<open>nil\<close> slice is resized to length 0). Both callers
  overwrite all \<^verbatim>\<open>dim\<close> elements at once, so the filling of fresh elements never shows.
\<close>

definition resize :: "float64 list \<Rightarrow> nat \<Rightarrow> float64 list" where
  "resize x n = take n x @ replicate (n - length x) (Finite 0)"

definition resize_nilable :: "float64 list option \<Rightarrow> nat \<Rightarrow> float64 list option" where
  "resize_nilable x n =
     (case x of
        None \<Rightarrow> (if n > 0 then Some (resize [] n) else None)
      | Some xs \<Rightarrow> Some (resize xs n))"

text \<open>
  \<^verbatim>\<open>*mat64.SymDense\<close> (package \<^verbatim>\<open>github.com/gonum/matrix/mat64\<close>) is a square matrix
  given by its rows; a \<^verbatim>\<open>nil\<close> pointer is \<open>None\<close>. \<^verbatim>\<open>SetSym(0, 0, v)\<close> panics on the
  0-by-0 matrix; \<^verbatim>\<open>CopySym\<close> copies the leading block common to both matrices.
\<close>

type_synonym SymDense = "float64 list list"

definition NewSymDense :: "nat \<Rightarrow> SymDense" where
  "NewSymDense n = replicate n (replicate n (Finite 0))"

definition Symmetric :: "SymDense \<Rightarrow> nat" where
  "Symmetric h = length h"

definition SetSym00 :: "SymDense \<Rightarrow> float64 \<Rightarrow> SymDense option" where
  "SetSym00 h v =
     (case h of
        [] \<Rightarrow> None
      | r # rs \<Rightarrow> (case r of [] \<Rightarrow> None | _ # as \<Rightarrow> Some ((v # as) # rs)))"

definition CopySym :: "SymDense \<Rightarrow> SymDense \<Rightarrow> SymDense" where
  "CopySym dst src =
     (let n = min (Symmetric dst) (Symmetric src)
      in map (\<lambda>(d, s). copy_slice d (take n s)) (zip (take n dst) (take n src)) @ drop n dst)"

subsection \<open>The data model\<close>

text \<open>
  Modelled from the spec: the type declarations (\<^verbatim>\<open>EvaluationType\<close>,
  \<^verbatim>\<open>IterationType\<close>, \<^verbatim>\<open>Status\<close>, \<^verbatim>\<open>Location\<close>, \<^verbatim>\<open>Stats\<close>, \<^verbatim>\<open>Settings\<close>,
  \<^verbatim>\<open>Result\<close>, \<^verbatim>\<open>FunctionInfo\<close>, the interfaces) are not among the sources. The
  constructors and fields are those \<^verbatim>\<open>local.go\<close> uses, under the names it uses; the
  enumerations list the values the spec gives. \<open>OtherEvaluation\<close> stands for any
  \<^verbatim>\<open>EvaluationType\<close> outside the declared constants (the \<^verbatim>\<open>default\<close> branch of
  \<^verbatim>\<open>evaluate\<close>). Go's \<^verbatim>\<open>int\<close> and \<^verbatim>\<open>time.Duration\<close> are 64-bit two's complement
  words: \<open>+\<close> wraps, comparisons are signed.
\<close>

datatype EvaluationType =
  NoEvaluation | FuncEvaluation | GradEvaluation | HessEvaluation
| FuncGradEvaluation | FuncGradHessEvaluation | OtherEvaluation

datatype IterationType = InitIteration | MajorIteration | MinorIteration | PostIteration

datatype Status =
  NotTerminated | GradientThreshhold | FunctionThreshhold | FunctionNegativeInfinity
| FunctionEvaluationLimit | GradientEvaluationLimit | HessianEvaluationLimit
| RuntimeLimit | IterationLimit | Failure

text \<open>The sentinel errors of \<^verbatim>\<open>getStartingLocation\<close>; any other error comes from a
  collaborator and is opaque to the driver.\<close>

datatype error = ErrNaN | ErrInf | ErrGradInf | ErrGradNaN | CollaboratorError nat

datatype panic =
  PanicZeroLengthX            \<comment> \<open>optimize: initial X has zero length\<close>
| PanicGradientFree           \<comment> \<open>optimize: gradient-free methods not yet coded\<close>
| PanicSizeMismatch           \<comment> \<open>optimize: initial location size mismatch\<close>
| PanicNoEvaluationNewLocation \<comment> \<open>optimize: no evaluation requested at new location\<close>
| PanicUnknownEvaluation      \<comment> \<open>optimize: unknown evaluation type\<close>
| PanicUnsupported EvaluationType \<comment> \<open>optimize: objective function does not support ...\<close>
| PanicIndexOutOfRange        \<comment> \<open>runtime error of an indexing at 0 into an empty slice or matrix\<close>

type_synonym int64 = "64 word"

record Location =
  X :: "float64 list"
  F :: float64
  Gradient :: "float64 list option"
  Hessian :: "SymDense option"

record 'r Settings =
  UseInitialData :: bool
  InitialFunctionValue :: float64
  InitialGradient :: "float64 list option"
  GradientAbsTol :: float64
  FunctionAbsTol :: float64
  FuncEvaluations :: int64
  GradEvaluations :: int64
  HessEvaluations :: int64
  MajorIterations :: int64
  Runtime :: int64
  Recorder :: "'r option"

record Stats =
  MajorIterations :: int64
  FuncEvaluations :: int64
  GradEvaluations :: int64
  HessEvaluations :: int64
  FuncGradEvaluations :: int64
  FuncGradHessEvaluations :: int64
  Runtime :: int64

text \<open>The zero values \<^verbatim>\<open>Location{}\<close> and \<^verbatim>\<open>Stats{}\<close>.\<close>

definition zero_Location :: Location where
  "zero_Location = \<lparr>X = [], F = Finite 0, Gradient = None, Hessian = None\<rparr>"

definition zero_Stats :: Stats where
  "zero_Stats = \<lparr>MajorIterations = 0, FuncEvaluations = 0, GradEvaluations = 0,
                  HessEvaluations = 0, FuncGradEvaluations = 0,
                  FuncGradHessEvaluations = 0, Runtime = 0\<rparr>"

text \<open>
  The capability flags (\<^verbatim>\<open>FunctionInfo\<close>) and, embedding them, \<^verbatim>\<open>functionInfo\<close> with
  the objective's methods. An objective method receives the contents of the slices it
  is passed and returns what it leaves in them; whether the driver's slice or matrix is
  \<^verbatim>\<open>nil\<close> is not for the callee to change. The evaluation methods are functions of
  their arguments; the status probe acts on the world.
\<close>

record FunctionInfo =
  IsGradient :: bool
  IsFunctionGradient :: bool
  IsHessian :: bool
  IsFunctionGradientHessian :: bool
  IsStatuser :: bool

record 'w functionInfo = FunctionInfo +
  function_Func :: "float64 list \<Rightarrow> float64"
  gradient_Grad :: "float64 list \<Rightarrow> float64 list \<Rightarrow> float64 list"
  functionGradient_FuncGrad :: "float64 list \<Rightarrow> float64 list \<Rightarrow> float64 \<times> float64 list"
  hessian_Hess :: "float64 list \<Rightarrow> SymDense \<Rightarrow> SymDense"
  functionGradientHessian_FuncGradHess ::
    "float64 list \<Rightarrow> float64 list \<Rightarrow> SymDense \<Rightarrow> float64 \<times> float64 list \<times> SymDense"
  statuser_Status :: "'w \<Rightarrow> (Status \<times> error option) \<times> 'w"

subsection \<open>copyLocation\<close>

definition copyLocation :: "Location \<Rightarrow> Location \<Rightarrow> Location" where
  "copyLocation dst src =
     (let dst = dst\<lparr>X := copy_slice (resize (X dst) (length (X src))) (X src)\<rparr>;
          dst = dst\<lparr>F := F src\<rparr>;
          dst = dst\<lparr>Gradient :=
                  map_option (\<lambda>g. copy_slice g (elems (Gradient src)))
                    (resize_nilable (Gradient dst) (len (Gradient src)))\<rparr>
      in case Hessian src of
           None \<Rightarrow> dst
         | Some hsrc \<Rightarrow>
             (let h = (case Hessian dst of
                         None \<Rightarrow> NewSymDense (length (X src))
                       | Some hdst \<Rightarrow>
                           if Symmetric hdst \<noteq> length (X src)
                           then NewSymDense (length (X src)) else hdst)
              in dst\<lparr>Hessian := Some (CopySym h hsrc)\<rparr>))"

subsection \<open>checkConvergence\<close>

definition checkConvergence ::
  "Location \<Rightarrow> IterationType \<Rightarrow> Stats \<Rightarrow> 'r Settings \<Rightarrow> Status" where
  "checkConvergence loc iterType stats settings =
     (case (if iterType = MajorIteration \<or> iterType = InitIteration then
              (if Gradient loc \<noteq> None \<and>
                  flt (floats_Norm_Inf (elems (Gradient loc))) (GradientAbsTol settings)
               then Some GradientThreshhold
               else if flt (F loc) (FunctionAbsTol settings)
               then Some FunctionThreshhold
               else None)
            else None) of
        Some status \<Rightarrow> status
      | None \<Rightarrow>
          if IsInf (F loc) (- 1) then FunctionNegativeInfinity
          else if 0 <s Settings.FuncEvaluations settings \<and>
                  Settings.FuncEvaluations settings \<le>s
                    Stats.FuncEvaluations stats + FuncGradEvaluations stats
                      + FuncGradHessEvaluations stats
          then FunctionEvaluationLimit
          else if 0 <s Settings.GradEvaluations settings \<and>
                  Settings.GradEvaluations settings \<le>s
                    Stats.GradEvaluations stats + FuncGradEvaluations stats
                      + FuncGradHessEvaluations stats
          then GradientEvaluationLimit
          else if 0 <s Settings.HessEvaluations settings \<and>
                  Settings.HessEvaluations settings \<le>s
                    Stats.HessEvaluations stats + FuncGradHessEvaluations stats
          then HessianEvaluationLimit
          else if 0 <s Settings.Runtime settings \<and>
                  Settings.Runtime settings \<le>s Stats.Runtime stats
          then RuntimeLimit
          else if iterType = MajorIteration \<and> 0 <s Settings.MajorIterations settings \<and>
                  Settings.MajorIterations settings \<le>s Stats.MajorIterations stats
          then IterationLimit
          else NotTerminated)"

subsection \<open>invalidate\<close>

text \<open>\<^verbatim>\<open>invalidate\<close> returns the Location as it is when the function returns or
  panics, together with the panic, if any.\<close>

definition invalidate :: "Location \<Rightarrow> bool \<Rightarrow> bool \<Rightarrow> bool \<Rightarrow> panic option \<times> Location" where
  "invalidate loc f grad hess =
     (let loc = (if f then loc\<lparr>F := NaN\<rparr> else loc)
      in case (if grad then Gradient loc else None) of
           Some [] \<Rightarrow> (Some PanicIndexOutOfRange, loc)
         | g \<Rightarrow>
             (let loc = (case g of Some (_ # gs) \<Rightarrow> loc\<lparr>Gradient := Some (NaN # gs)\<rparr>
                                 | _ \<Rightarrow> loc)
              in case (if hess then Hessian loc else None) of
                   None \<Rightarrow> (None, loc)
                 | Some h \<Rightarrow>
                     (case SetSym00 h NaN of
                        None \<Rightarrow> (Some PanicIndexOutOfRange, loc)
                      | Some h' \<Rightarrow> (None, loc\<lparr>Hessian := Some h'\<rparr>))))"

subsection \<open>evaluate\<close>

text \<open>
  One call of an objective method together with the assignment of its results into the
  Location. A \<^verbatim>\<open>nil\<close> gradient slice or Hessian pointer of the Location stays
  \<^verbatim>\<open>nil\<close>; the callee then sees an empty slice or matrix.
\<close>

definition Func_into :: "'w functionInfo \<Rightarrow> Location \<Rightarrow> Location" where
  "Func_into funcInfo loc = loc\<lparr>F := function_Func funcInfo (X loc)\<rparr>"

definition Grad_into :: "'w functionInfo \<Rightarrow> Location \<Rightarrow> Location" where
  "Grad_into funcInfo loc =
     loc\<lparr>Gradient := map_option (gradient_Grad funcInfo (X loc)) (Gradient loc)\<rparr>"

definition FuncGrad_into :: "'w functionInfo \<Rightarrow> Location \<Rightarrow> Location" where
  "FuncGrad_into funcInfo loc =
     (case functionGradient_FuncGrad funcInfo (X loc) (elems (Gradient loc)) of
        (f, g) \<Rightarrow> loc\<lparr>F := f, Gradient := map_option (\<lambda>_. g) (Gradient loc)\<rparr>)"

definition Hess_into :: "'w functionInfo \<Rightarrow> Location \<Rightarrow> Location" where
  "Hess_into funcInfo loc =
     loc\<lparr>Hessian := map_option (hessian_Hess funcInfo (X loc)) (Hessian loc)\<rparr>"

definition FuncGradHess_into :: "'w functionInfo \<Rightarrow> Location \<Rightarrow> Location" where
  "FuncGradHess_into funcInfo loc =
     (case functionGradientHessian_FuncGradHess funcInfo (X loc) (elems (Gradient loc))
             (case Hessian loc of None \<Rightarrow> [] | Some h \<Rightarrow> h) of
        (f, g, h) \<Rightarrow>
          loc\<lparr>F := f, Gradient := map_option (\<lambda>_. g) (Gradient loc),
              Hessian := map_option (\<lambda>_. h) (Hessian loc)\<rparr>)"

text \<open>\<^verbatim>\<open>if different { invalidate(loc, f, grad, hess) }\<close>\<close>

definition invalidate_if ::
  "bool \<Rightarrow> Location \<Rightarrow> bool \<Rightarrow> bool \<Rightarrow> bool \<Rightarrow> panic option \<times> Location" where
  "invalidate_if different loc f grad hess =
     (if different then invalidate loc f grad hess else (None, loc))"

text \<open>
  \<^verbatim>\<open>evaluate\<close> returns the panic, if any, and the Location and Stats as the call
  leaves them (also when it panics: both are reached through pointers).
\<close>

definition evaluate ::
  "'w functionInfo \<Rightarrow> EvaluationType \<Rightarrow> float64 list \<Rightarrow> Location \<Rightarrow> Stats
     \<Rightarrow> panic option \<times> Location \<times> Stats" where
  "evaluate funcInfo evalType xNext loc stats =
     (let different = (\<not> floats_Equal (X loc) xNext);
          loc = (if different then loc\<lparr>X := copy_slice (X loc) xNext\<rparr> else loc)
      in case evalType of
           FuncEvaluation \<Rightarrow>
             (case invalidate_if different loc False True True of
                (Some p, loc) \<Rightarrow> (Some p, loc, stats)
              | (None, loc) \<Rightarrow>
                  (None, Func_into funcInfo loc,
                   stats\<lparr>FuncEvaluations := FuncEvaluations stats + 1\<rparr>))
         | GradEvaluation \<Rightarrow>
             if IsGradient funcInfo then
               (case invalidate_if different loc True False True of
                  (Some p, loc) \<Rightarrow> (Some p, loc, stats)
                | (None, loc) \<Rightarrow>
                    (None, Grad_into funcInfo loc,
                     stats\<lparr>GradEvaluations := GradEvaluations stats + 1\<rparr>))
             else if IsFunctionGradient funcInfo then
               (case invalidate_if different loc False False True of
                  (Some p, loc) \<Rightarrow> (Some p, loc, stats)
                | (None, loc) \<Rightarrow>
                    (None, FuncGrad_into funcInfo loc,
                     stats\<lparr>FuncGradEvaluations := FuncGradEvaluations stats + 1\<rparr>))
             else if IsFunctionGradientHessian funcInfo then
               (let loc = (if Hessian loc = None
                           then loc\<lparr>Hessian := Some (NewSymDense (length (X loc)))\<rparr>
                           else loc)
                in (None, FuncGradHess_into funcInfo loc,
                    stats\<lparr>FuncGradHessEvaluations := FuncGradHessEvaluations stats + 1\<rparr>))
             else (Some (PanicUnsupported evalType), loc, stats)
         | HessEvaluation \<Rightarrow>
             if IsHessian funcInfo then
               (case invalidate_if different loc True True False of
                  (Some p, loc) \<Rightarrow> (Some p, loc, stats)
                | (None, loc) \<Rightarrow>
                    (None, Hess_into funcInfo loc,
                     stats\<lparr>HessEvaluations := HessEvaluations stats + 1\<rparr>))
             else if IsFunctionGradientHessian funcInfo then
               (let loc = (if Gradient loc = None
                           then loc\<lparr>Gradient := Some (replicate (length (X loc)) (Finite 0))\<rparr>
                           else loc)
                in (None, FuncGradHess_into funcInfo loc,
                    stats\<lparr>FuncGradHessEvaluations := FuncGradHessEvaluations stats + 1\<rparr>))
             else (Some (PanicUnsupported evalType), loc, stats)
         | FuncGradEvaluation \<Rightarrow>
             if IsFunctionGradient funcInfo then
               (case invalidate_if different loc False False True of
                  (Some p, loc) \<Rightarrow> (Some p, loc, stats)
                | (None, loc) \<Rightarrow>
                    (None, FuncGrad_into funcInfo loc,
                     stats\<lparr>FuncGradEvaluations := FuncGradEvaluations stats + 1\<rparr>))
             else if IsGradient funcInfo then
               (case invalidate_if different loc False False True of
                  (Some p, loc) \<Rightarrow> (Some p, loc, stats)
                | (None, loc) \<Rightarrow>
                    (let loc = Func_into funcInfo loc;
                         stats = stats\<lparr>FuncEvaluations := FuncEvaluations stats + 1\<rparr>;
                         loc = Grad_into funcInfo loc;
                         stats = stats\<lparr>GradEvaluations := GradEvaluations stats + 1\<rparr>
                     in (None, loc, stats)))
             else if IsFunctionGradientHessian funcInfo then
               (let loc = (if Hessian loc = None
                           then loc\<lparr>Hessian := Some (NewSymDense (length (X loc)))\<rparr>
                           else loc)
                in (None, FuncGradHess_into funcInfo loc,
                    stats\<lparr>FuncGradHessEvaluations := FuncGradHessEvaluations stats + 1\<rparr>))
             else (Some (PanicUnsupported evalType), loc, stats)
         | FuncGradHessEvaluation \<Rightarrow>
             if IsFunctionGradientHessian funcInfo then
               (None, FuncGradHess_into funcInfo loc,
                stats\<lparr>FuncGradHessEvaluations := FuncGradHessEvaluations stats + 1\<rparr>)
             else if IsGradient funcInfo \<and> IsHessian funcInfo then
               (let loc = Func_into funcInfo loc;
                    stats = stats\<lparr>FuncEvaluations := FuncEvaluations stats + 1\<rparr>;
                    loc = Grad_into funcInfo loc;
                    stats = stats\<lparr>GradEvaluations := GradEvaluations stats + 1\<rparr>;
                    loc = Hess_into funcInfo loc;
                    stats = stats\<lparr>HessEvaluations := HessEvaluations stats + 1\<rparr>
                in (None, loc, stats))
             else (Some (PanicUnsupported evalType), loc, stats)
         | NoEvaluation \<Rightarrow>
             if different then (Some PanicNoEvaluationNewLocation, loc, stats)
             else (None, loc, stats)
         | OtherEvaluation \<Rightarrow> (Some PanicUnknownEvaluation, loc, stats))"

subsection \<open>update\<close>

text \<open>\<^verbatim>\<open>time.Since(startTime)\<close> reads the clock of the world; it is the parameter
  \<open>clock\<close>.\<close>

definition update ::
  "('w \<Rightarrow> int64 \<times> 'w) \<Rightarrow> Location \<Rightarrow> Location \<Rightarrow> Stats \<Rightarrow> IterationType \<Rightarrow> 'w
     \<Rightarrow> Location \<times> Stats \<times> 'w" where
  "update clock loc optLoc stats iterType w =
     (let stats = (if iterType = MajorIteration
                   then stats\<lparr>MajorIterations := MajorIterations stats + 1\<rparr>
                   else stats);
          optLoc = (if fle (F loc) (F optLoc) then copyLocation optLoc loc else optLoc)
      in case clock w of
           (t, w) \<Rightarrow> (optLoc, stats\<lparr>Runtime := t\<rparr>, w))"

subsection \<open>The collaborators: Method, Recorder, and what the sources leave out\<close>

text \<open>
  Modelled from the spec: the interfaces \<^verbatim>\<open>Method\<close> (\<^verbatim>\<open>Init\<close>, \<^verbatim>\<open>Iterate\<close>,
  \<^verbatim>\<open>Needs\<close>, and \<^verbatim>\<open>Status\<close> when the method is a \<^verbatim>\<open>Statuser\<close>) and
  \<^verbatim>\<open>Recorder\<close> (\<^verbatim>\<open>Init\<close>, \<^verbatim>\<open>Record\<close>) are not among the sources. A method
  receives the working Location and \<^verbatim>\<open>xNext\<close> by reference and hands both back; a
  recorder reads what it is given. Both act on the world.
\<close>

record needs =
  needs_Gradient :: bool
  needs_Hessian :: bool

record 'w Method =
  Method_Init ::
    "Location \<Rightarrow> FunctionInfo \<Rightarrow> float64 list \<Rightarrow> 'w
       \<Rightarrow> (EvaluationType \<times> IterationType \<times> error option) \<times> Location \<times> float64 list \<times> 'w"
  Method_Iterate ::
    "Location \<Rightarrow> float64 list \<Rightarrow> 'w
       \<Rightarrow> (EvaluationType \<times> IterationType \<times> error option) \<times> Location \<times> float64 list \<times> 'w"
  Method_Needs :: needs
  Method_Status :: "('w \<Rightarrow> (Status \<times> error option) \<times> 'w) option"

record 'w Recorder =
  Recorder_Init :: "FunctionInfo \<Rightarrow> 'w \<Rightarrow> error option \<times> 'w"
  Recorder_Record ::
    "Location \<Rightarrow> EvaluationType \<Rightarrow> IterationType \<Rightarrow> Stats \<Rightarrow> 'w \<Rightarrow> error option \<times> 'w"

text \<open>
  Modelled from the spec: \<^verbatim>\<open>functionInfo.satisfies\<close>, \<^verbatim>\<open>DefaultSettings\<close> and the
  method \<^verbatim>\<open>BFGS\<close> are not among the sources, and \<^verbatim>\<open>time.Since\<close> reads the clock.
  They are parameters of the driver, gathered in one record; \<^verbatim>\<open>newFunctionInfo(f)\<close>, also
  absent, is taken as done: the driver starts from its result \<open>funcInfo\<close>.
\<close>

record 'w Env =
  satisfies :: "'w functionInfo \<Rightarrow> 'w Method \<Rightarrow> error option"
  DefaultSettings :: "'w Recorder Settings"
  BFGS :: "'w Method"
  time_Since :: "'w \<Rightarrow> int64 \<times> 'w"

record Result =
  Result_Location :: Location
  Result_Stats :: Stats
  Result_Status :: Status

text \<open>
  The calls of \<^verbatim>\<open>checkConvergence\<close> and of \<^verbatim>\<open>Recorder.Record\<close> that the driver makes
  are logged in program order, each with the Location and the iteration kind it is given.
  The log is a ghost variable: no decision of the driver reads it.
\<close>

datatype event =
  CheckConvergence Location IterationType
| Record Location IterationType

subsection \<open>getDefaultMethod and getStartingLocation\<close>

definition getDefaultMethod :: "'w Env \<Rightarrow> 'w functionInfo \<Rightarrow> panic + 'w Method" where
  "getDefaultMethod env funcInfo =
     (if IsGradient funcInfo \<or> IsFunctionGradient funcInfo then Inr (BFGS env)
      else Inl PanicGradientFree)"

text \<open>The loop \<^verbatim>\<open>for _, v := range loc.Gradient\<close> of \<^verbatim>\<open>getStartingLocation\<close>.\<close>

fun gradient_sentinel :: "float64 list \<Rightarrow> error option" where
  "gradient_sentinel [] = None"
| "gradient_sentinel (v # vs) =
     (if IsInf v 0 then Some ErrGradInf
      else if IsNaN v then Some ErrGradNaN
      else gradient_sentinel vs)"

definition getStartingLocation ::
  "'w functionInfo \<Rightarrow> 'w Method \<Rightarrow> float64 list \<Rightarrow> Stats \<Rightarrow> 'r Settings
     \<Rightarrow> panic + (Location \<times> EvaluationType \<times> error option) \<times> Stats" where
  "getStartingLocation funcInfo method initX stats settings =
     (let n = length initX;
          loc = zero_Location\<lparr>X := copy_slice (replicate n (Finite 0)) initX\<rparr>;
          loc = (if needs_Gradient (Method_Needs method)
                 then loc\<lparr>Gradient := Some (replicate n (Finite 0))\<rparr> else loc);
          loc = (if needs_Hessian (Method_Needs method)
                 then loc\<lparr>Hessian := Some (NewSymDense n)\<rparr> else loc)
      in case (if UseInitialData settings then
                 (let loc = loc\<lparr>F := InitialFunctionValue settings\<rparr>
                  in case Gradient loc of
                       None \<Rightarrow> (None, loc, NoEvaluation, stats)
                     | Some g \<Rightarrow>
                         (let initG = InitialGradient settings
                          in if len initG \<noteq> n
                             then (Some PanicSizeMismatch, loc, NoEvaluation, stats)
                             else (None, loc\<lparr>Gradient := Some (copy_slice g (elems initG))\<rparr>,
                                   NoEvaluation, stats)))
               else
                 (let evalType = (if Gradient loc \<noteq> None then FuncGradEvaluation
                                  else FuncEvaluation)
                  in case evaluate funcInfo evalType (X loc) loc stats of
                       (p, loc, stats) \<Rightarrow> (p, loc, evalType, stats))) of
           (Some p, _) \<Rightarrow> Inl p
         | (None, loc, evalType, stats) \<Rightarrow>
             Inr ((loc, evalType,
                   (if IsNaN (F loc) then Some ErrNaN
                    else if IsInf (F loc) 1 then Some ErrInf
                    else gradient_sentinel (elems (Gradient loc)))), stats))"

subsection \<open>minimize\<close>

text \<open>
  The variables of \<^verbatim>\<open>minimize\<close> that live across iterations of its \<^verbatim>\<open>for\<close> loop,
  with the world and the log.
\<close>

record 'w loop_state =
  st_loc :: Location
  st_optLoc :: Location
  st_xNext :: "float64 list"
  st_stats :: Stats
  st_evalType :: EvaluationType
  st_iterType :: IterationType
  st_world :: 'w
  st_log :: "event list"

text \<open>What \<^verbatim>\<open>minimize\<close> leaves when it returns: the named results \<^verbatim>\<open>status\<close> and
  \<^verbatim>\<open>err\<close>, and \<^verbatim>\<open>optLoc\<close> and \<^verbatim>\<open>stats\<close>, which it updates in place.\<close>

record 'w returned =
  ret_status :: Status
  ret_err :: "error option"
  ret_optLoc :: Location
  ret_stats :: Stats
  ret_world :: 'w
  ret_log :: "event list"

datatype 'w step = Panics panic | Returns "'w returned" | Continues "'w loop_state"

text \<open>A liveness probe (\<^verbatim>\<open>Status()\<close>) followed by
  \<^verbatim>\<open>if err != nil || status != NotTerminated { return }\<close>: \<open>Some\<close> is the return.\<close>

definition probe ::
  "('w \<Rightarrow> (Status \<times> error option) \<times> 'w) \<Rightarrow> 'w \<Rightarrow> (Status \<times> error option) option \<times> 'w" where
  "probe status_fn w =
     (case status_fn w of
        ((status, err), w) \<Rightarrow>
          if err \<noteq> None \<or> status \<noteq> NotTerminated then (Some (status, err), w)
          else (None, w))"

text \<open>One pass through the body of the \<^verbatim>\<open>for\<close> loop.\<close>

definition minimize_body ::
  "'w Env \<Rightarrow> 'w Recorder Settings \<Rightarrow> 'w Method \<Rightarrow> 'w functionInfo \<Rightarrow> 'w loop_state \<Rightarrow> 'w step" where
  "minimize_body env settings method funcInfo s =
     (case (if IsStatuser funcInfo then probe (statuser_Status funcInfo) (st_world s)
            else (None, st_world s)) of
        (Some (status, err), w) \<Rightarrow>
          Returns \<lparr>ret_status = status, ret_err = err, ret_optLoc = st_optLoc s,
                   ret_stats = st_stats s, ret_world = w, ret_log = st_log s\<rparr>
      | (None, w) \<Rightarrow>
          (case evaluate funcInfo (st_evalType s) (st_xNext s) (st_loc s) (st_stats s) of
             (Some p, _) \<Rightarrow> Panics p
           | (None, loc, stats) \<Rightarrow>
               (case update (time_Since env) loc (st_optLoc s) stats (st_iterType s) w of
                  (optLoc, stats, w) \<Rightarrow>
                    (let status = checkConvergence optLoc (st_iterType s) stats settings;
                         tr = st_log s @ [CheckConvergence optLoc (st_iterType s)]
                     in case (case Recorder settings of
                                None \<Rightarrow> (None, w, tr)
                              | Some recorder \<Rightarrow>
                                  (case Recorder_Record recorder loc (st_evalType s)
                                          (st_iterType s) stats w of
                                     (err, w) \<Rightarrow> (err, w, tr @ [Record loc (st_iterType s)]))) of
                          (Some e, w, tr) \<Rightarrow>
                            Returns \<lparr>ret_status = (if status = NotTerminated then Failure
                                                    else status),
                                     ret_err = Some e, ret_optLoc = optLoc, ret_stats = stats,
                                     ret_world = w, ret_log = tr\<rparr>
                        | (None, w, tr) \<Rightarrow>
                            if status \<noteq> NotTerminated then
                              Returns \<lparr>ret_status = status, ret_err = None, ret_optLoc = optLoc,
                                       ret_stats = stats, ret_world = w, ret_log = tr\<rparr>
                            else
                              (case (case Method_Status method of
                                       None \<Rightarrow> (None, w)
                                     | Some methodStatus \<Rightarrow> probe methodStatus w) of
                                 (Some (status, err), w) \<Rightarrow>
                                   Returns \<lparr>ret_status = status, ret_err = err,
                                            ret_optLoc = optLoc, ret_stats = stats,
                                            ret_world = w, ret_log = tr\<rparr>
                               | (None, w) \<Rightarrow>
                                   (case Method_Iterate method loc (st_xNext s) w of
                                      ((evalType, iterType, err), loc, xNext, w) \<Rightarrow>
                                        if err \<noteq> None then
                                          Returns \<lparr>ret_status = Failure, ret_err = err,
                                                   ret_optLoc = optLoc, ret_stats = stats,
                                                   ret_world = w, ret_log = tr\<rparr>
                                        else
                                          Continues \<lparr>st_loc = loc, st_optLoc = optLoc,
                                                     st_xNext = xNext, st_stats = stats,
                                                     st_evalType = evalType,
                                                     st_iterType = iterType,
                                                     st_world = w, st_log = tr\<rparr>))))))"

text \<open>The \<^verbatim>\<open>for\<close> loop itself. It has no bound: a run that never leaves the loop is
  the value \<open>None\<close>.\<close>

partial_function (option) minimize_loop ::
  "'w Env \<Rightarrow> 'w Recorder Settings \<Rightarrow> 'w Method \<Rightarrow> 'w functionInfo \<Rightarrow> 'w loop_state
     \<Rightarrow> (panic + 'w returned) option" where
  "minimize_loop env settings method funcInfo s =
     (case minimize_body env settings method funcInfo s of
        Panics p \<Rightarrow> Some (Inl p)
      | Returns r \<Rightarrow> Some (Inr r)
      | Continues s' \<Rightarrow> minimize_loop env settings method funcInfo s')"

declare minimize_loop.simps [code]

definition minimize ::
  "'w Env \<Rightarrow> 'w Recorder Settings \<Rightarrow> 'w Method \<Rightarrow> 'w functionInfo \<Rightarrow> Stats \<Rightarrow> Location \<Rightarrow> 'w
     \<Rightarrow> event list \<Rightarrow> (panic + 'w returned) option" where
  "minimize env settings method funcInfo stats optLoc w tr =
     (let loc = copyLocation zero_Location optLoc;
          xNext = replicate (length (X loc)) (Finite 0)
      in case Method_Init method loc (FunctionInfo.truncate funcInfo) xNext w of
           ((evalType, iterType, err), loc, xNext, w) \<Rightarrow>
             if err \<noteq> None then
               Some (Inr \<lparr>ret_status = Failure, ret_err = err, ret_optLoc = optLoc,
                          ret_stats = stats, ret_world = w, ret_log = tr\<rparr>)
             else
               minimize_loop env settings method funcInfo
                 \<lparr>st_loc = loc, st_optLoc = optLoc, st_xNext = xNext, st_stats = stats,
                  st_evalType = evalType, st_iterType = iterType, st_world = w,
                  st_log = tr\<rparr>)"

subsection \<open>Local\<close>

text \<open>
  What \<^verbatim>\<open>Local\<close> returns: the \<^verbatim>\<open>*Result\<close> (\<open>None\<close> is \<^verbatim>\<open>nil\<close>) and the error,
  with the world and the log it leaves. \<^verbatim>\<open>method\<close> and \<^verbatim>\<open>settings\<close> are \<open>None\<close> when
  the caller passes \<^verbatim>\<open>nil\<close>.
\<close>

record 'w outcome =
  out_result :: "Result option"
  out_err :: "error option"
  out_world :: 'w
  out_log :: "event list"

definition Local ::
  "'w Env \<Rightarrow> 'w functionInfo \<Rightarrow> float64 list \<Rightarrow> 'w Recorder Settings option \<Rightarrow> 'w Method option
     \<Rightarrow> 'w \<Rightarrow> (panic + 'w outcome) option" where
  "Local env funcInfo initX settings method w =
     (if length initX = 0 then Some (Inl PanicZeroLengthX)
      else
        case (case method of None \<Rightarrow> getDefaultMethod env funcInfo | Some m \<Rightarrow> Inr m) of
          Inl p \<Rightarrow> Some (Inl p)
        | Inr method \<Rightarrow>
        (case satisfies env funcInfo method of
           Some err \<Rightarrow>
             Some (Inr \<lparr>out_result = None, out_err = Some err, out_world = w, out_log = []\<rparr>)
         | None \<Rightarrow>
        (case (if IsStatuser funcInfo then
                 (case statuser_Status funcInfo w of ((_, err), w) \<Rightarrow> (err, w))
               else (None, w)) of
           (Some err, w) \<Rightarrow>
             Some (Inr \<lparr>out_result = None, out_err = Some err, out_world = w, out_log = []\<rparr>)
         | (None, w) \<Rightarrow>
        (let settings = (case settings of None \<Rightarrow> DefaultSettings env | Some s \<Rightarrow> s)
         in
         case (case Recorder settings of
                 None \<Rightarrow> (None, w)
               | Some recorder \<Rightarrow> Recorder_Init recorder (FunctionInfo.truncate funcInfo) w) of
           (Some err, w) \<Rightarrow>
             Some (Inr \<lparr>out_result = None, out_err = Some err, out_world = w, out_log = []\<rparr>)
         | (None, w) \<Rightarrow>
        (case getStartingLocation funcInfo method initX zero_Stats settings of
           Inl p \<Rightarrow> Some (Inl p)
         | Inr ((optLoc, evalType, Some err), stats) \<Rightarrow>
             Some (Inr \<lparr>out_result = None, out_err = Some err, out_world = w, out_log = []\<rparr>)
         | Inr ((optLoc, evalType, None), stats) \<Rightarrow>
        (case time_Since env w of
           (t, w) \<Rightarrow>
        (let stats = stats\<lparr>Runtime := t\<rparr>
         in
         case (case Recorder settings of
                 None \<Rightarrow> (None, w, [])
               | Some recorder \<Rightarrow>
                   (case Recorder_Record recorder optLoc evalType InitIteration stats w of
                      (err, w) \<Rightarrow> (err, w, [Record optLoc InitIteration]))) of
           (err, w, tr) \<Rightarrow>
        (let status = checkConvergence optLoc InitIteration stats settings;
             tr = tr @ [CheckConvergence optLoc InitIteration]
         in
         case (if status = NotTerminated \<and> err = None
               then minimize env settings method funcInfo stats optLoc w tr
               else Some (Inr \<lparr>ret_status = status, ret_err = err, ret_optLoc = optLoc,
                               ret_stats = stats, ret_world = w, ret_log = tr\<rparr>)) of
           None \<Rightarrow> None
         | Some (Inl p) \<Rightarrow> Some (Inl p)
         | Some (Inr r) \<Rightarrow>
        (case (case Recorder settings of
                 Some recorder \<Rightarrow>
                   (if ret_err r = None then
                      (case Recorder_Record recorder (ret_optLoc r) NoEvaluation PostIteration
                              (ret_stats r) (ret_world r) of
                         (err, w) \<Rightarrow> (err, w, ret_log r @ [Record (ret_optLoc r) PostIteration]))
                    else (ret_err r, ret_world r, ret_log r))
               | None \<Rightarrow> (ret_err r, ret_world r, ret_log r)) of
           (err, w, tr) \<Rightarrow>
        (case time_Since env w of
           (t, w) \<Rightarrow>
             Some (Inr \<lparr>out_result =
                          Some \<lparr>Result_Location = ret_optLoc r,
                                Result_Stats = (ret_stats r)\<lparr>Runtime := t\<rparr>,
                                Result_Status = ret_status r\<rparr>,
                        out_err = err, out_world = w, out_log = tr\<rparr>)))))))))))"

subsection \<open>The order of calls in the log\<close>

text \<open>
  A stretch of the log in which every \<^verbatim>\<open>Record\<close> comes directly after a
  \<^verbatim>\<open>checkConvergence\<close> of the same iteration kind: the shape of what one or more passes
  through the loop of \<^verbatim>\<open>minimize\<close> append (a pass without a recorder appends the check
  alone).
\<close>

fun checked_before_recorded :: "event list \<Rightarrow> bool" where
  "checked_before_recorded [] = True"
| "checked_before_recorded (CheckConvergence optLoc iterType # Record loc iterType' # es) =
     (iterType = iterType' \<and> checked_before_recorded es)"
| "checked_before_recorded (CheckConvergence optLoc iterType # es) = checked_before_recorded es"
| "checked_before_recorded (Record loc iterType # es) = False"

subsection \<open>Concrete collaborators\<close>

text \<open>
  An objective with chosen capabilities whose value is the constant \<open>v\<close> and whose
  gradient components are all 2; a method that needs the gradient and asks for a
  function-and-gradient evaluation at the current point as a major iteration; a recorder
  that accepts everything and one whose \<^verbatim>\<open>Record\<close> fails; settings with chosen caps on
  function evaluations and major iterations and with thresholds that never fire; an
  environment whose clock stands still. The world is \<open>unit\<close>.
\<close>

definition example_objective ::
  "bool \<Rightarrow> bool \<Rightarrow> bool \<Rightarrow> bool \<Rightarrow> float64 \<Rightarrow> unit functionInfo" where
  "example_objective g fg h fgh v =
     \<lparr>IsGradient = g, IsFunctionGradient = fg, IsHessian = h,
      IsFunctionGradientHessian = fgh, IsStatuser = False,
      function_Func = (\<lambda>x. v),
      gradient_Grad = (\<lambda>x grad. map (\<lambda>_. Finite 2) grad),
      functionGradient_FuncGrad = (\<lambda>x grad. (v, map (\<lambda>_. Finite 2) grad)),
      hessian_Hess = (\<lambda>x hess. hess),
      functionGradientHessian_FuncGradHess =
        (\<lambda>x grad hess. (v, map (\<lambda>_. Finite 2) grad, hess)),
      statuser_Status = (\<lambda>w. ((NotTerminated, None), w))\<rparr>"

text \<open>A Location at the point 0 of dimension 1, with a chosen value and gradient.\<close>

definition example_location :: "float64 \<Rightarrow> float64 list option \<Rightarrow> Location" where
  "example_location v grad = \<lparr>X = [Finite 0], F = v, Gradient = grad, Hessian = None\<rparr>"

definition example_method :: "unit Method" where
  "example_method =
     \<lparr>Method_Init = (\<lambda>loc info xNext w.
        ((FuncGradEvaluation, MajorIteration, None), loc, X loc, w)),
      Method_Iterate = (\<lambda>loc xNext w.
        ((FuncGradEvaluation, MajorIteration, None), loc, X loc, w)),
      Method_Needs = \<lparr>needs_Gradient = True, needs_Hessian = False\<rparr>,
      Method_Status = None\<rparr>"

definition accepting_recorder :: "unit Recorder" where
  "accepting_recorder =
     \<lparr>Recorder_Init = (\<lambda>info w. (None, w)),
      Recorder_Record = (\<lambda>loc evalType iterType stats w. (None, w))\<rparr>"

definition failing_recorder :: "unit Recorder" where
  "failing_recorder =
     \<lparr>Recorder_Init = (\<lambda>info w. (None, w)),
      Recorder_Record = (\<lambda>loc evalType iterType stats w. (Some (CollaboratorError 7), w))\<rparr>"

definition example_settings ::
  "unit Recorder option \<Rightarrow> int64 \<Rightarrow> int64 \<Rightarrow> unit Recorder Settings" where
  "example_settings recorder funcCap majorCap =
     \<lparr>UseInitialData = False, InitialFunctionValue = Finite 0, InitialGradient = None,
      GradientAbsTol = Finite 0, FunctionAbsTol = NegInf,
      Settings.FuncEvaluations = funcCap, Settings.GradEvaluations = 0,
      Settings.HessEvaluations = 0, Settings.MajorIterations = majorCap,
      Settings.Runtime = 0, Recorder = recorder\<rparr>"

definition example_env :: "unit Env" where
  "example_env =
     \<lparr>satisfies = (\<lambda>funcInfo method. None),
      DefaultSettings = example_settings None 0 0,
      BFGS = example_method,
      time_Since = (\<lambda>w. (0, w))\<rparr>"

text \<open>A state of the loop of \<^verbatim>\<open>minimize\<close>: a major iteration is about to evaluate
  function and gradient at the current point.\<close>

definition example_state :: "unit loop_state" where
  "example_state =
     \<lparr>st_loc = example_location (Finite 1) (Some [Finite 2]),
      st_optLoc = example_location (Finite 1) (Some [Finite 2]),
      st_xNext = [Finite 0], st_stats = zero_Stats,
      st_evalType = FuncGradEvaluation, st_iterType = MajorIteration,
      st_world = (), st_log = []\<rparr>"

section \<open>Properties\<close>

subsection \<open>Auxiliary facts\<close>

lemmas example_defs = example_env_def example_objective_def example_method_def
  example_settings_def accepting_recorder_def failing_recorder_def zero_Location_def
  zero_Stats_def example_location_def

lemmas evaluate_defs = evaluate_def invalidate_if_def invalidate_def Func_into_def
  Grad_into_def FuncGrad_into_def Hess_into_def FuncGradHess_into_def floats_Equal_def
  fne_def feq_def copy_slice_def elems_def SetSym00_def NewSymDense_def

lemmas driver_defs = Local_def minimize_def minimize_body_def getDefaultMethod_def
  getStartingLocation_def update_def checkConvergence_def probe_def copyLocation_def
  resize_def resize_nilable_def len_def floats_Norm_Inf_def math_Max_def IsInf_def IsNaN_def
  fle_def word_sless_alt word_sle_eq Let_def

text \<open>On numbers \<^verbatim>\<open><=\<close> is a total preorder; a NaN is related to nothing.\<close>

lemma flt_NaN_right: "flt x NaN = False"
  by (cases x) simp_all

lemma fle_NaN_left: "fle NaN y = False"
  by (simp add: fle_def feq_def)

lemma fle_refl: "x \<noteq> NaN \<Longrightarrow> fle x x"
  by (simp add: fle_def feq_def)

lemma fle_trans: "fle x y \<Longrightarrow> fle y z \<Longrightarrow> fle x z"
  by (cases x; cases y; cases z) (auto simp: fle_def feq_def)

lemma fle_total: "x \<noteq> NaN \<Longrightarrow> y \<noteq> NaN \<Longrightarrow> fle x y \<or> fle y x"
  by (cases x; cases y) (auto simp: fle_def feq_def)

text \<open>\<^verbatim>\<open>copyLocation\<close> makes the point, the value and the gradient of the destination
  those of the source.\<close>

lemma copy_slice_resize: "copy_slice (resize d (length s)) s = s"
  by (simp add: copy_slice_def resize_def)

lemma X_copyLocation: "X (copyLocation dst src) = X src"
  by (simp add: copyLocation_def Let_def copy_slice_resize split: option.splits)

lemma F_copyLocation: "F (copyLocation dst src) = F src"
  by (simp add: copyLocation_def Let_def split: option.splits)

lemma Gradient_copyLocation: "elems (Gradient (copyLocation dst src)) = elems (Gradient src)"
proof -
  have "copy_slice (resize d (len (Gradient src))) (elems (Gradient src)) = elems (Gradient src)"
    for d
    by (auto simp add: copy_slice_def resize_def len_def elems_def split: option.splits)
  then show ?thesis
    by (auto simp add: copyLocation_def Let_def resize_nilable_def elems_def len_def
        split: option.splits)
qed

lemma example_copyLocation:
  "copyLocation (example_location v g) (example_location v' (Some [a]))
     = example_location v' (Some [a])"
  by (cases g) (simp_all add: copyLocation_def example_location_def resize_def
      resize_nilable_def copy_slice_def len_def elems_def)

lemma fst_update:
  "fst (update clock loc optLoc stats iterType w) =
     (if fle (F loc) (F optLoc) then copyLocation optLoc loc else optLoc)"
  by (simp add: update_def Let_def split: prod.splits)

lemma F_fst_update:
  "F (fst (update clock loc optLoc stats iterType w)) =
     (if fle (F loc) (F optLoc) then F loc else F optLoc)"
  by (simp add: fst_update F_copyLocation)

text \<open>The best-known value after any sequence of calls of \<^verbatim>\<open>update\<close>, by induction
  on the sequence from its end.\<close>

lemma best_invariant:
  assumes "F optLoc \<noteq> NaN"
  shows "F (foldl (\<lambda>best c. case c of (l, st, it, w) \<Rightarrow> fst (update clock l best st it w))
              optLoc calls) \<noteq> NaN
       \<and> fle (F (foldl (\<lambda>best c. case c of (l, st, it, w) \<Rightarrow> fst (update clock l best st it w))
                   optLoc calls)) (F optLoc)
       \<and> (\<forall>c \<in> set calls. F (fst c) \<noteq> NaN \<longrightarrow>
            fle (F (foldl (\<lambda>best c. case c of (l, st, it, w) \<Rightarrow>
                             fst (update clock l best st it w)) optLoc calls)) (F (fst c)))"
proof (induction calls rule: rev_induct)
  case Nil
  then show ?case using assms by (simp add: fle_refl)
next
  case (snoc c calls)
  let ?b = "foldl (\<lambda>best c. case c of (l, st, it, w) \<Rightarrow> fst (update clock l best st it w))
              optLoc calls"
  obtain l st it w where c: "c = (l, st, it, w)" by (cases c) auto
  have b: "F ?b \<noteq> NaN" and b0: "fle (F ?b) (F optLoc)"
    and ball: "\<forall>c \<in> set calls. F (fst c) \<noteq> NaN \<longrightarrow> fle (F ?b) (F (fst c))"
    using snoc.IH by auto
  show ?case
  proof (cases "fle (F l) (F ?b)")
    case True
    then have "F l \<noteq> NaN" using fle_NaN_left by metis
    with True b0 ball show ?thesis
      by (auto simp: c F_fst_update fle_refl intro: fle_trans)
  next
    case False
    have "F l \<noteq> NaN \<Longrightarrow> fle (F ?b) (F l)" using False b fle_total by blast
    with False b b0 ball show ?thesis
      by (auto simp: c F_fst_update)
  qed
qed

lemma checkConvergence_not_Failure: "checkConvergence loc iterType stats settings \<noteq> Failure"
  by (simp add: checkConvergence_def split: option.splits)

subsection \<open>Dispatch of a function-and-gradient request (C1)\<close>

text \<open>
  Claim C1, as amended. For every capability set and every call of \<^verbatim>\<open>evaluate\<close> with
  \<^verbatim>\<open>FuncGradEvaluation\<close>, the candidate point is first copied into the Location if it
  differs from the current one, and then:
  \<^item> if the combined function+gradient capability is present, that one call is made, its
    value and gradient are stored, and only its counter is incremented;
  \<^item> otherwise, if the bare gradient capability is present, the request is decomposed
    into a bare-function call and a bare-gradient call, whose results are stored, and
    those two counters are incremented;
  \<^item> in both of these cases a new point first has the stale Hessian marked with a NaN at
    its first cell; should that marking panic (a Hessian that is 0 by 0), \<^verbatim>\<open>evaluate\<close>
    panics before any objective call, and no counter changes;
  \<^item> otherwise, if the combined function+gradient+Hessian capability is present, the
    triple call is made (on a fresh matrix when the Location has no Hessian), its value,
    gradient and Hessian are stored, and only its counter is incremented;
  \<^item> otherwise \<^verbatim>\<open>evaluate\<close> panics for want of a capability, and no counter changes.
  So the decomposition comes before the triple form, not after it. The statement is the
  whole result of the call (panic, Location and Stats) in terms of the objective's methods.
\<close>

theorem evaluate_FuncGrad_dispatch:
  "evaluate funcInfo FuncGradEvaluation xNext loc stats =
     (let x = (if floats_Equal (X loc) xNext then X loc else copy_slice (X loc) xNext);
          g = elems (Gradient loc);
          h = (case Hessian loc of None \<Rightarrow> NewSymDense (length x) | Some h \<Rightarrow> h);
          stale = (if floats_Equal (X loc) xNext then Hessian loc
                   else (case Hessian loc of None \<Rightarrow> None | Some h \<Rightarrow> SetSym00 h NaN))
      in if IsFunctionGradient funcInfo \<or> IsGradient funcInfo then
           if \<not> floats_Equal (X loc) xNext \<and>
              (case Hessian loc of None \<Rightarrow> False | Some h \<Rightarrow> SetSym00 h NaN = None)
           then (Some PanicIndexOutOfRange, loc\<lparr>X := x\<rparr>, stats)
           else if IsFunctionGradient funcInfo then
             (None,
              loc\<lparr>X := x, F := fst (functionGradient_FuncGrad funcInfo x g),
                  Gradient := map_option (\<lambda>_. snd (functionGradient_FuncGrad funcInfo x g))
                                (Gradient loc),
                  Hessian := stale\<rparr>,
              stats\<lparr>FuncGradEvaluations := FuncGradEvaluations stats + 1\<rparr>)
           else
             (None,
              loc\<lparr>X := x, F := function_Func funcInfo x,
                  Gradient := map_option (gradient_Grad funcInfo x) (Gradient loc),
                  Hessian := stale\<rparr>,
              stats\<lparr>FuncEvaluations := FuncEvaluations stats + 1,
                    GradEvaluations := GradEvaluations stats + 1\<rparr>)
         else if IsFunctionGradientHessian funcInfo then
           (None,
            loc\<lparr>X := x, F := fst (functionGradientHessian_FuncGradHess funcInfo x g h),
                Gradient := map_option
                  (\<lambda>_. fst (snd (functionGradientHessian_FuncGradHess funcInfo x g h)))
                  (Gradient loc),
                Hessian := Some (snd (snd (functionGradientHessian_FuncGradHess funcInfo x g h)))\<rparr>,
            stats\<lparr>FuncGradHessEvaluations := FuncGradHessEvaluations stats + 1\<rparr>)
         else (Some (PanicUnsupported FuncGradEvaluation), loc\<lparr>X := x\<rparr>, stats))"
  by (auto simp add: evaluate_def invalidate_if_def invalidate_def Func_into_def Grad_into_def
      FuncGrad_into_def FuncGradHess_into_def Let_def elems_def
      split: if_splits option.splits prod.splits list.splits)

text \<open>The cases at the point 0, for objectives with the combined form, with the bare
  gradient and the triple form, with the triple form alone, and with neither; and a
  new point with a Hessian that is 0 by 0.\<close>

theorem evaluate_FuncGrad_dispatch_witness:
  "evaluate (example_objective True True False True (Finite 1)) FuncGradEvaluation [Finite 0]
     (example_location (Finite 5) (Some [Finite 0])) zero_Stats
     = (None, example_location (Finite 1) (Some [Finite 2]),
        zero_Stats\<lparr>FuncGradEvaluations := 1\<rparr>) \<and>
   evaluate (example_objective True False False True (Finite 1)) FuncGradEvaluation [Finite 0]
     (example_location (Finite 5) (Some [Finite 0])) zero_Stats
     = (None, example_location (Finite 1) (Some [Finite 2]),
        zero_Stats\<lparr>FuncEvaluations := 1, GradEvaluations := 1\<rparr>) \<and>
   evaluate (example_objective False False False True (Finite 1)) FuncGradEvaluation [Finite 0]
     (example_location (Finite 5) (Some [Finite 0])) zero_Stats
     = (None, (example_location (Finite 1) (Some [Finite 2]))\<lparr>Hessian := Some [[Finite 0]]\<rparr>,
        zero_Stats\<lparr>FuncGradHessEvaluations := 1\<rparr>) \<and>
   evaluate (example_objective False False True False (Finite 1)) FuncGradEvaluation [Finite 0]
     (example_location (Finite 5) (Some [Finite 0])) zero_Stats
     = (Some (PanicUnsupported FuncGradEvaluation),
        example_location (Finite 5) (Some [Finite 0]), zero_Stats) \<and>
   evaluate (example_objective True True False True (Finite 1)) FuncGradEvaluation [Finite 1]
     ((example_location (Finite 5) (Some [Finite 0]))\<lparr>Hessian := Some []\<rparr>) zero_Stats
     = (Some PanicIndexOutOfRange,
        (example_location (Finite 5) (Some [Finite 0]))\<lparr>X := [Finite 1], Hessian := Some []\<rparr>,
        zero_Stats)"
  by (simp add: evaluate_FuncGrad_dispatch example_defs floats_Equal_def fne_def feq_def
      copy_slice_def elems_def SetSym00_def NewSymDense_def Let_def)

text \<open>
  The claim as stated puts the triple form before the decomposition. An objective with
  the bare gradient and the triple form, but without the combined function+gradient
  form, is served by the decomposition: the function and gradient counters go to 1 and
  the triple counter stays 0.
\<close>

theorem evaluate_FuncGrad_dispatch_counterexample:
  "IsFunctionGradientHessian (example_objective True False False True (Finite 1)) \<and>
   \<not> IsFunctionGradient (example_objective True False False True (Finite 1)) \<and>
   snd (snd (evaluate (example_objective True False False True (Finite 1)) FuncGradEvaluation
               [Finite 0] (example_location (Finite 5) (Some [Finite 0])) zero_Stats))
     = zero_Stats\<lparr>FuncEvaluations := 1, GradEvaluations := 1\<rparr> \<and>
   FuncGradHessEvaluations
     (snd (snd (evaluate (example_objective True False False True (Finite 1)) FuncGradEvaluation
               [Finite 0] (example_location (Finite 5) (Some [Finite 0])) zero_Stats))) = 0"
  by (simp add: example_defs evaluate_defs)

subsection \<open>A function value of negative infinity (C2)\<close>

text \<open>
  Claim C2, as amended. For every location whose function value \<open>F\<close> is negative
  infinity, \<^verbatim>\<open>checkConvergence\<close> returns \<^verbatim>\<open>FunctionNegativeInfinity\<close> on every
  iteration kind, unless a threshold rule fires first: on \<^verbatim>\<open>InitIteration\<close> and
  \<^verbatim>\<open>MajorIteration\<close> a tracked gradient whose infinity norm is below the gradient
  tolerance gives \<^verbatim>\<open>GradientThreshhold\<close>, and otherwise a function tolerance above
  negative infinity gives \<^verbatim>\<open>FunctionThreshhold\<close>. The test for negative infinity itself
  is not gated by the iteration kind, and no limit is looked at before it.
\<close>

theorem checkConvergence_negative_infinity:
  "F loc = NegInf \<Longrightarrow>
   checkConvergence loc iterType stats settings =
     (if (iterType = InitIteration \<or> iterType = MajorIteration) \<and> Gradient loc \<noteq> None \<and>
          flt (floats_Norm_Inf (elems (Gradient loc))) (GradientAbsTol settings)
      then GradientThreshhold
      else if (iterType = InitIteration \<or> iterType = MajorIteration) \<and>
              flt (F loc) (FunctionAbsTol settings)
      then FunctionThreshhold
      else FunctionNegativeInfinity)"
  by (simp add: checkConvergence_def IsInf_def)

theorem checkConvergence_negative_infinity_witness:
  "F (example_location NegInf None) = NegInf \<and>
   checkConvergence (example_location NegInf None) MinorIteration zero_Stats
     (example_settings None 0 0) = FunctionNegativeInfinity \<and>
   checkConvergence (example_location NegInf None) MajorIteration zero_Stats
     (example_settings None 0 0) = FunctionNegativeInfinity"
proof -
  have h: "F (example_location NegInf None) = NegInf" by (simp add: example_location_def)
  show ?thesis
    using
      checkConvergence_negative_infinity
        [OF h, of MinorIteration zero_Stats "example_settings None 0 0"]
      checkConvergence_negative_infinity
        [OF h, of MajorIteration zero_Stats "example_settings None 0 0"]
    by (simp add: example_location_def example_settings_def)
qed

text \<open>On a major iteration with the function tolerance set to 0, a value of negative
  infinity is reported as \<^verbatim>\<open>FunctionThreshhold\<close>.\<close>

theorem checkConvergence_negative_infinity_counterexample:
  "F (example_location NegInf None) = NegInf \<and>
   checkConvergence (example_location NegInf None) MajorIteration zero_Stats
     ((example_settings None 0 0)\<lparr>FunctionAbsTol := Finite 0\<rparr>) = FunctionThreshhold"
  by (simp add: checkConvergence_def example_location_def example_settings_def)

subsection \<open>The threshold rules (C3)\<close>

text \<open>
  Claim C3. \<^verbatim>\<open>checkConvergence\<close> applies the threshold rules only when the iteration
  kind is \<^verbatim>\<open>InitIteration\<close> or \<^verbatim>\<open>MajorIteration\<close>, in this priority: if a gradient is
  tracked (not \<^verbatim>\<open>nil\<close>) and its infinity norm is strictly below the gradient absolute
  tolerance, the result is \<^verbatim>\<open>GradientThreshhold\<close>; otherwise, if the function value is
  strictly below the function absolute tolerance, it is \<^verbatim>\<open>FunctionThreshhold\<close>; if
  neither rule applies, and on every other iteration kind, neither threshold status is
  returned.
\<close>

theorem checkConvergence_thresholds:
  "(iterType = InitIteration \<or> iterType = MajorIteration \<longrightarrow>
      (Gradient loc \<noteq> None \<and>
       flt (floats_Norm_Inf (elems (Gradient loc))) (GradientAbsTol settings)
         \<longrightarrow> checkConvergence loc iterType stats settings = GradientThreshhold) \<and>
      (\<not> (Gradient loc \<noteq> None \<and>
          flt (floats_Norm_Inf (elems (Gradient loc))) (GradientAbsTol settings)) \<and>
       flt (F loc) (FunctionAbsTol settings)
         \<longrightarrow> checkConvergence loc iterType stats settings = FunctionThreshhold) \<and>
      (\<not> (Gradient loc \<noteq> None \<and>
          flt (floats_Norm_Inf (elems (Gradient loc))) (GradientAbsTol settings)) \<and>
       \<not> flt (F loc) (FunctionAbsTol settings)
         \<longrightarrow> checkConvergence loc iterType stats settings \<noteq> GradientThreshhold \<and>
             checkConvergence loc iterType stats settings \<noteq> FunctionThreshhold)) \<and>
   (iterType \<noteq> InitIteration \<and> iterType \<noteq> MajorIteration \<longrightarrow>
      checkConvergence loc iterType stats settings \<noteq> GradientThreshhold \<and>
      checkConvergence loc iterType stats settings \<noteq> FunctionThreshhold)"
  by (simp add: checkConvergence_def)

theorem checkConvergence_thresholds_witness:
  "checkConvergence (example_location (Finite 5) (Some [Finite (- 1)])) InitIteration zero_Stats
     ((example_settings None 0 0)\<lparr>GradientAbsTol := Finite 2, FunctionAbsTol := Finite 9\<rparr>)
     = GradientThreshhold \<and>
   checkConvergence (example_location (Finite 5) (Some [Finite (- 3)])) MajorIteration zero_Stats
     ((example_settings None 0 0)\<lparr>GradientAbsTol := Finite 2, FunctionAbsTol := Finite 9\<rparr>)
     = FunctionThreshhold \<and>
   checkConvergence (example_location (Finite 5) (Some [Finite (- 3)])) MajorIteration zero_Stats
     ((example_settings None 0 0)\<lparr>GradientAbsTol := Finite 2, FunctionAbsTol := Finite 5\<rparr>)
     \<noteq> FunctionThreshhold \<and>
   checkConvergence (example_location (Finite 5) (Some [Finite (- 1)])) MinorIteration zero_Stats
     ((example_settings None 0 0)\<lparr>GradientAbsTol := Finite 2, FunctionAbsTol := Finite 9\<rparr>)
     \<noteq> GradientThreshhold \<and>
   checkConvergence (example_location (Finite 5) (Some [Finite (- 1)])) PostIteration zero_Stats
     ((example_settings None 0 0)\<lparr>GradientAbsTol := Finite 2, FunctionAbsTol := Finite 9\<rparr>)
     \<noteq> FunctionThreshhold"
proof -
  let ?S9 = "(example_settings None 0 0)\<lparr>GradientAbsTol := Finite 2, FunctionAbsTol := Finite 9\<rparr>"
  let ?S5 = "(example_settings None 0 0)\<lparr>GradientAbsTol := Finite 2, FunctionAbsTol := Finite 5\<rparr>"
  have n1: "floats_Norm_Inf [Finite (- 1)] = Finite 1"
    and n3: "floats_Norm_Inf [Finite (- 3)] = Finite 3"
    by (simp_all add: floats_Norm_Inf_def math_Max_def IsInf_def IsNaN_def)
  show ?thesis
    using
      checkConvergence_thresholds
        [of InitIteration "example_location (Finite 5) (Some [Finite (- 1)])" ?S9 zero_Stats]
      checkConvergence_thresholds
        [of MajorIteration "example_location (Finite 5) (Some [Finite (- 3)])" ?S9 zero_Stats]
      checkConvergence_thresholds
        [of MajorIteration "example_location (Finite 5) (Some [Finite (- 3)])" ?S5 zero_Stats]
      checkConvergence_thresholds
        [of MinorIteration "example_location (Finite 5) (Some [Finite (- 1)])" ?S9 zero_Stats]
      checkConvergence_thresholds
        [of PostIteration "example_location (Finite 5) (Some [Finite (- 1)])" ?S9 zero_Stats]
    by (simp add: example_location_def example_settings_def elems_def n1 n3)
qed

subsection \<open>The best-known Location (C4)\<close>

text \<open>
  Claim C4, as amended. \<^verbatim>\<open>update\<close> copies the working Location over the best-known
  Location exactly when the working \<open>F\<close> is \<^verbatim>\<open><=\<close> the best-known \<open>F\<close>, so a tie
  favours the newer point; the copy takes over the point, the value and the gradient.
  Hence, when the best-known \<open>F\<close> is not a NaN to begin with (\<^verbatim>\<open>getStartingLocation\<close>
  reports a NaN start as an error), after any sequence of calls of \<^verbatim>\<open>update\<close> the
  best-known \<open>F\<close> is \<^verbatim>\<open><=\<close> the starting \<open>F\<close> and \<^verbatim>\<open><=\<close> the \<open>F\<close> of every working
  Location passed so far whose \<open>F\<close> is not a NaN. A working \<open>F\<close> that is a NaN is never
  copied and is not bounded by the best-known value: every comparison with it is false.
\<close>

theorem update_best_so_far:
  assumes "\<not> IsNaN (F optLoc)"
  shows
    "fst (update clock loc optLoc stats iterType w)
       = (if fle (F loc) (F optLoc) then copyLocation optLoc loc else optLoc) \<and>
     (fle (F loc) (F optLoc) \<longrightarrow>
        X (fst (update clock loc optLoc stats iterType w)) = X loc \<and>
        F (fst (update clock loc optLoc stats iterType w)) = F loc \<and>
        elems (Gradient (fst (update clock loc optLoc stats iterType w)))
          = elems (Gradient loc)) \<and>
     (feq (F loc) (F optLoc) \<longrightarrow>
        fst (update clock loc optLoc stats iterType w) = copyLocation optLoc loc) \<and>
     fle (F (foldl (\<lambda>best c. case c of (l, st, it, w) \<Rightarrow> fst (update clock l best st it w))
               optLoc calls)) (F optLoc) \<and>
     (\<forall>c \<in> set calls. \<not> IsNaN (F (fst c)) \<longrightarrow>
        fle (F (foldl (\<lambda>best c. case c of (l, st, it, w) \<Rightarrow> fst (update clock l best st it w))
                  optLoc calls)) (F (fst c)))"
proof -
  have "F optLoc \<noteq> NaN" using assms by (simp add: IsNaN_def)
  from best_invariant [OF this, of clock calls]
  show ?thesis
    by (simp add: fst_update X_copyLocation F_copyLocation Gradient_copyLocation IsNaN_def fle_def)
qed

text \<open>A tie at the value 3 replaces the best-known Location; after the working values 4,
  NaN and 2 the best-known value is below 4.\<close>

theorem update_best_so_far_witness:
  "\<not> IsNaN (F (example_location (Finite 3) None)) \<and>
   fst (update (time_Since example_env) (example_location (Finite 3) (Some [Finite 1]))
          (example_location (Finite 3) None) zero_Stats MinorIteration ())
     = example_location (Finite 3) (Some [Finite 1]) \<and>
   fle (F (foldl (\<lambda>best c. case c of (l, st, it, w) \<Rightarrow>
                    fst (update (time_Since example_env) l best st it w))
             (example_location (Finite 3) None)
             [(example_location (Finite 4) None, zero_Stats, MajorIteration, ()),
              (example_location NaN None, zero_Stats, MinorIteration, ()),
              (example_location (Finite 2) None, zero_Stats, MajorIteration, ())]))
       (F (example_location (Finite 4) None))"
proof -
  have h: "\<not> IsNaN (F (example_location (Finite 3) None))"
    by (simp add: example_location_def IsNaN_def)
  have c: "copyLocation (example_location (Finite 3) None)
             (example_location (Finite 3) (Some [Finite 1]))
           = example_location (Finite 3) (Some [Finite 1])"
    by (rule example_copyLocation)
  show ?thesis
    using h
      update_best_so_far [OF h, of "time_Since example_env"
        "example_location (Finite 3) (Some [Finite 1])" zero_Stats MinorIteration "()"
        "[(example_location (Finite 4) None, zero_Stats, MajorIteration, ()),
          (example_location NaN None, zero_Stats, MinorIteration, ()),
          (example_location (Finite 2) None, zero_Stats, MajorIteration, ())]"]
    by (simp add: c) (simp add: example_location_def fle_def feq_def IsNaN_def)
qed

text \<open>
  The claim as stated bounds every working \<open>F\<close> observed. A working Location whose \<open>F\<close>
  is a NaN (as \<^verbatim>\<open>invalidate\<close> leaves it) does not replace the best-known Location, and
  the best-known value 3 is not \<^verbatim>\<open><=\<close> that NaN.
\<close>

theorem update_best_so_far_counterexample:
  "fst (update (time_Since example_env) (example_location NaN None)
          (example_location (Finite 3) None) zero_Stats MinorIteration ())
     = example_location (Finite 3) None \<and>
   \<not> fle (F (example_location (Finite 3) None)) (F (example_location NaN None))"
  by (simp add: update_def example_env_def example_location_def fle_def feq_def)

subsection \<open>No evaluation requested (C7)\<close>

text \<open>
  Claim C7. When the candidate point differs in content from the current location (as
  \<^verbatim>\<open>floats.Equal\<close> compares them: lengths, then elements with \<^verbatim>\<open>!=\<close>, so that a point
  with a NaN coordinate differs from every point), a \<^verbatim>\<open>NoEvaluation\<close> request makes
  \<^verbatim>\<open>evaluate\<close> panic, and the Stats are as they were before the call; when the candidate
  point equals the current location, the call changes neither the Location nor the
  Stats.
\<close>

theorem evaluate_NoEvaluation:
  "(\<not> floats_Equal (X loc) xNext \<longrightarrow>
      fst (evaluate funcInfo NoEvaluation xNext loc stats) = Some PanicNoEvaluationNewLocation \<and>
      snd (snd (evaluate funcInfo NoEvaluation xNext loc stats)) = stats) \<and>
   (floats_Equal (X loc) xNext \<longrightarrow>
      evaluate funcInfo NoEvaluation xNext loc stats = (None, loc, stats))"
  by (simp add: evaluate_def Let_def)

theorem evaluate_NoEvaluation_witness:
  "\<not> floats_Equal (X (example_location (Finite 5) None)) [Finite 1] \<and>
   evaluate (example_objective True False False False (Finite 1)) NoEvaluation [Finite 1]
     (example_location (Finite 5) None) zero_Stats
     = (Some PanicNoEvaluationNewLocation, (example_location (Finite 5) None)\<lparr>X := [Finite 1]\<rparr>,
        zero_Stats) \<and>
   floats_Equal (X (example_location (Finite 5) None)) [Finite 0] \<and>
   evaluate (example_objective True False False False (Finite 1)) NoEvaluation [Finite 0]
     (example_location (Finite 5) None) zero_Stats
     = (None, example_location (Finite 5) None, zero_Stats)"
proof -
  have d: "\<not> floats_Equal (X (example_location (Finite 5) None)) [Finite 1]"
    and e: "floats_Equal (X (example_location (Finite 5) None)) [Finite 0]"
    by (simp_all add: example_location_def floats_Equal_def fne_def feq_def)
  have x: "snd (evaluate (example_objective True False False False (Finite 1)) NoEvaluation
             [Finite 1] (example_location (Finite 5) None) zero_Stats)
           = ((example_location (Finite 5) None)\<lparr>X := [Finite 1]\<rparr>, zero_Stats)"
    by (simp add: example_location_def evaluate_defs Let_def)
  show ?thesis
    using d e x
      evaluate_NoEvaluation [of "example_location (Finite 5) None" "[Finite 1]"
        "example_objective True False False False (Finite 1)" zero_Stats]
      evaluate_NoEvaluation [of "example_location (Finite 5) None" "[Finite 0]"
        "example_objective True False False False (Finite 1)" zero_Stats]
    by (simp add: prod_eq_iff)
qed

subsection \<open>A NaN working value never replaces the best-known Location (C10)\<close>

text \<open>
  Claim C10. In every call of \<^verbatim>\<open>update\<close> in which the working Location's \<open>F\<close> is a
  NaN, the best-known Location is left entirely unchanged, the comparison
  \<^verbatim>\<open>loc.F <= optLoc.F\<close> being false. \<^verbatim>\<open>invalidate\<close> with its flag \<^verbatim>\<open>f\<close> set leaves a NaN
  in \<open>F\<close> (also when it panics afterwards), so a working Location invalidated in this way
  cannot overwrite the best-known one.
\<close>

theorem update_NaN_keeps_best:
  "(IsNaN (F loc) \<longrightarrow> fst (update clock loc optLoc stats iterType w) = optLoc) \<and>
   F (snd (invalidate loc True grad hess)) = NaN \<and>
   fst (update clock (snd (invalidate loc True grad hess)) optLoc stats iterType w) = optLoc"
proof -
  have "F (snd (invalidate loc True grad hess)) = NaN"
    by (auto simp add: invalidate_def Let_def split: option.splits list.splits)
  then show ?thesis
    by (simp add: fst_update IsNaN_def fle_NaN_left)
qed

theorem update_NaN_keeps_best_witness:
  "IsNaN (F (example_location NaN (Some [Finite 1]))) \<and>
   fst (update (time_Since example_env) (example_location NaN (Some [Finite 1]))
          (example_location (Finite 3) None) zero_Stats MajorIteration ())
     = example_location (Finite 3) None"
  using update_NaN_keeps_best [of "example_location NaN (Some [Finite 1])"
      "time_Since example_env" "example_location (Finite 3) None" zero_Stats MajorIteration "()"]
  by (simp add: IsNaN_def example_location_def)

subsection \<open>A failing progress report inside the loop (C6)\<close>

text \<open>
  Claim C6. When, in a pass through the loop of \<^verbatim>\<open>minimize\<close>, the call of
  \<^verbatim>\<open>Recorder.Record\<close> fails, \<^verbatim>\<open>minimize\<close> returns at once with that error; the status
  it returns is \<^verbatim>\<open>Failure\<close> if and only if the convergence status computed in the same
  pass was \<^verbatim>\<open>NotTerminated\<close>, and otherwise it is that convergence status. The pass is
  any pass: \<open>s\<close> is an arbitrary state of the loop whose liveness probe lets the pass
  through and whose evaluation does not panic.
\<close>

theorem minimize_record_failure:
  assumes "Recorder settings = Some recorder"
    and "(if IsStatuser funcInfo then probe (statuser_Status funcInfo) (st_world s)
          else (None, st_world s)) = (None, w1)"
    and "evaluate funcInfo (st_evalType s) (st_xNext s) (st_loc s) (st_stats s)
           = (None, loc, stats1)"
    and "update (time_Since env) loc (st_optLoc s) stats1 (st_iterType s) w1
           = (optLoc, stats2, w2)"
    and "Recorder_Record recorder loc (st_evalType s) (st_iterType s) stats2 w2 = (Some e, w3)"
  shows "\<exists>r. minimize_loop env settings method funcInfo s = Some (Inr r) \<and>
             ret_err r = Some e \<and>
             ret_status r =
               (if checkConvergence optLoc (st_iterType s) stats2 settings = NotTerminated
                then Failure
                else checkConvergence optLoc (st_iterType s) stats2 settings) \<and>
             (ret_status r = Failure \<longleftrightarrow>
                checkConvergence optLoc (st_iterType s) stats2 settings = NotTerminated) \<and>
             ret_optLoc r = optLoc \<and> ret_stats r = stats2"
proof -
  have "minimize_body env settings method funcInfo s =
          Returns \<lparr>ret_status =
                     (if checkConvergence optLoc (st_iterType s) stats2 settings = NotTerminated
                      then Failure
                      else checkConvergence optLoc (st_iterType s) stats2 settings),
                   ret_err = Some e, ret_optLoc = optLoc, ret_stats = stats2, ret_world = w3,
                   ret_log = st_log s @ [CheckConvergence optLoc (st_iterType s),
                                         Record loc (st_iterType s)]\<rparr>"
    unfolding minimize_body_def using assms by (simp add: Let_def)
  then show ?thesis
    by (subst minimize_loop.simps) (simp add: checkConvergence_not_Failure)
qed

text \<open>With a cap of one major iteration the pass reaches \<^verbatim>\<open>IterationLimit\<close>, which the
  failing report does not displace; without a cap the status would be
  \<^verbatim>\<open>NotTerminated\<close> and becomes \<^verbatim>\<open>Failure\<close>.\<close>

theorem minimize_record_failure_witness:
  "(\<exists>r. minimize_loop example_env (example_settings (Some failing_recorder) 0 1) example_method
          (example_objective True False False False (Finite 1)) example_state = Some (Inr r) \<and>
        ret_err r = Some (CollaboratorError 7) \<and> ret_status r = IterationLimit) \<and>
   (\<exists>r. minimize_loop example_env (example_settings (Some failing_recorder) 0 0) example_method
          (example_objective True False False False (Finite 1)) example_state = Some (Inr r) \<and>
        ret_err r = Some (CollaboratorError 7) \<and> ret_status r = Failure)"
proof -
  let ?f = "example_objective True False False False (Finite 1)"
  let ?L = "example_location (Finite 1) (Some [Finite 2])"
  let ?st = "zero_Stats\<lparr>Stats.MajorIterations := 1, FuncEvaluations := 1, GradEvaluations := 1\<rparr>"
  have h1: "Recorder (example_settings (Some failing_recorder) 0 c) = Some failing_recorder" for c
    by (simp add: example_settings_def)
  have h2: "(if IsStatuser ?f then probe (statuser_Status ?f) (st_world example_state)
             else (None, st_world example_state)) = (None, ())"
    by (simp add: example_objective_def)
  have h3: "evaluate ?f (st_evalType example_state) (st_xNext example_state)
              (st_loc example_state) (st_stats example_state)
            = (None, ?L, zero_Stats\<lparr>FuncEvaluations := 1, GradEvaluations := 1\<rparr>)"
    by (simp add: example_state_def example_defs evaluate_defs)
  have h4: "update (time_Since example_env) ?L (st_optLoc example_state)
              (zero_Stats\<lparr>FuncEvaluations := 1, GradEvaluations := 1\<rparr>)
              (st_iterType example_state) () = (?L, ?st, ())"
    by (simp add: update_def example_state_def example_env_def example_copyLocation zero_Stats_def)
  have h5: "Recorder_Record failing_recorder ?L (st_evalType example_state)
              (st_iterType example_state) ?st () = (Some (CollaboratorError 7), ())"
    by (simp add: failing_recorder_def)
  have c1: "checkConvergence ?L (st_iterType example_state) ?st
              (example_settings (Some failing_recorder) 0 1) = IterationLimit"
    by (simp add: checkConvergence_def example_state_def example_settings_def example_location_def
        zero_Stats_def elems_def floats_Norm_Inf_def math_Max_def IsInf_def IsNaN_def
        word_sless_alt word_sle_eq)
  have c0: "checkConvergence ?L (st_iterType example_state) ?st
              (example_settings (Some failing_recorder) 0 0) = NotTerminated"
    by (simp add: checkConvergence_def example_state_def example_settings_def example_location_def
        zero_Stats_def elems_def floats_Norm_Inf_def math_Max_def IsInf_def IsNaN_def
        word_sless_alt word_sle_eq)
  show ?thesis
    using minimize_record_failure [OF h1 h2 h3 h4 h5, of 1 example_method]
      minimize_record_failure [OF h1 h2 h3 h4 h5, of 0 example_method]
    by (simp add: c1 c0) blast
qed

subsection \<open>A starting point that is not a number (C5)\<close>

lemma gradient_sentinel_Some:
  "(\<exists>v \<in> set g. IsNaN v \<or> IsInf v 0) \<longleftrightarrow>
     gradient_sentinel g = Some ErrGradInf \<or> gradient_sentinel g = Some ErrGradNaN"
  by (induction g) auto

lemma getStartingLocation_err:
  assumes "getStartingLocation funcInfo m initX stats0 settings = Inr ((loc, evalType, err), stats)"
  shows "err = (if IsNaN (F loc) then Some ErrNaN
                else if IsInf (F loc) 1 then Some ErrInf
                else gradient_sentinel (elems (Gradient loc)))"
  using assms unfolding getStartingLocation_def Let_def
  by (auto split: if_splits option.splits prod.splits)

lemma getStartingLocation_count:
  assumes "getStartingLocation funcInfo m initX zero_Stats settings
           = Inr ((loc, evalType, err), stats)"
  shows "Stats.FuncEvaluations stats + FuncGradEvaluations stats + FuncGradHessEvaluations stats
         = (if UseInitialData settings then 0 else 1)"
  using assms unfolding getStartingLocation_def Let_def evaluate_def invalidate_if_def
  by (auto simp: zero_Stats_def split: if_splits option.splits prod.splits)

text \<open>
  Claim C5, as amended. Let \<^verbatim>\<open>Local\<close> get as far as the starting location (the initial
  point is not empty, a method is there or the default is found, the method's needs are
  satisfied, the objective's probe and the recorder's \<^verbatim>\<open>Init\<close> report no error, and
  \<^verbatim>\<open>getStartingLocation\<close> does not panic). If the starting function value is a NaN or
  +Inf, or a component of the starting gradient is a NaN or an infinity, then \<^verbatim>\<open>Local\<close>
  returns at once with the sentinel error of the first test that fires (\<^verbatim>\<open>ErrNaN\<close>,
  \<^verbatim>\<open>ErrInf\<close>, then per gradient component \<^verbatim>\<open>ErrGradInf\<close> before \<^verbatim>\<open>ErrGradNaN\<close>), and
  with no Result: the \<^verbatim>\<open>*Result\<close> is \<^verbatim>\<open>nil\<close>. No method is initialised, nothing is
  recorded or checked, the world is as the recorder's \<^verbatim>\<open>Init\<close> left it, and the function
  evaluations counted are the starting one alone (none when the caller supplied the
  initial data).
\<close>

theorem Local_starting_sentinel:
  assumes "initX \<noteq> []"
    and "(case method of None \<Rightarrow> getDefaultMethod env funcInfo | Some m \<Rightarrow> Inr m) = Inr m"
    and "satisfies env funcInfo m = None"
    and "(if IsStatuser funcInfo
          then (case statuser_Status funcInfo w of ((_, err), w) \<Rightarrow> (err, w))
          else (None, w)) = (None, w1)"
    and "settings' = (case settings of None \<Rightarrow> DefaultSettings env | Some s \<Rightarrow> s)"
    and "(case Recorder settings' of
            None \<Rightarrow> (None, w1)
          | Some recorder \<Rightarrow> Recorder_Init recorder (FunctionInfo.truncate funcInfo) w1)
         = (None, w2)"
    and "getStartingLocation funcInfo m initX zero_Stats settings'
         = Inr ((loc, evalType, err), stats)"
    and "IsNaN (F loc) \<or> IsInf (F loc) 1 \<or>
         (\<exists>v \<in> set (elems (Gradient loc)). IsNaN v \<or> IsInf v 0)"
  shows "Local env funcInfo initX settings method w
           = Some (Inr \<lparr>out_result = None, out_err = err, out_world = w2, out_log = []\<rparr>) \<and>
         err = (if IsNaN (F loc) then Some ErrNaN
                else if IsInf (F loc) 1 then Some ErrInf
                else gradient_sentinel (elems (Gradient loc))) \<and>
         (err = Some ErrNaN \<or> err = Some ErrInf \<or> err = Some ErrGradInf \<or>
          err = Some ErrGradNaN) \<and>
         Stats.FuncEvaluations stats + FuncGradEvaluations stats + FuncGradHessEvaluations stats
           = (if UseInitialData settings' then 0 else 1)"
proof -
  have e: "err = (if IsNaN (F loc) then Some ErrNaN
                  else if IsInf (F loc) 1 then Some ErrInf
                  else gradient_sentinel (elems (Gradient loc)))"
    using assms(7) by (rule getStartingLocation_err)
  have r: "err = Some ErrNaN \<or> err = Some ErrInf \<or> err = Some ErrGradInf \<or>
           err = Some ErrGradNaN"
    using e assms(8) gradient_sentinel_Some [of "elems (Gradient loc)"] by auto
  then obtain e' where e': "err = Some e'" by auto
  have "Local env funcInfo initX settings method w
          = Some (Inr \<lparr>out_result = None, out_err = err, out_world = w2, out_log = []\<rparr>)"
    unfolding Local_def
    using assms(1-4) assms(6,7) [unfolded assms(5)] e'
    by simp
  with e r getStartingLocation_count [OF assms(7)] show ?thesis by simp
qed

text \<open>An objective whose value at the starting point is +Inf, with the default method
  and the default settings.\<close>

theorem Local_starting_sentinel_witness:
  "IsInf (F (example_location PosInf (Some [Finite 2]))) 1 \<and>
   Local example_env (example_objective True False False False PosInf) [Finite 0] None None ()
     = Some (Inr \<lparr>out_result = None, out_err = Some ErrInf, out_world = (), out_log = []\<rparr>)"
proof -
  let ?f = "example_objective True False False False PosInf"
  let ?L = "example_location PosInf (Some [Finite 2])"
  have a1: "[Finite 0] \<noteq> ([] :: float64 list)" by simp
  have a2: "(case None of None \<Rightarrow> getDefaultMethod example_env ?f | Some m \<Rightarrow> Inr m)
            = Inr example_method"
    by (simp add: getDefaultMethod_def example_objective_def example_env_def)
  have a3: "satisfies example_env ?f example_method = None" by (simp add: example_env_def)
  have a4: "(if IsStatuser ?f then (case statuser_Status ?f () of ((_, err), w) \<Rightarrow> (err, w))
             else (None, ())) = (None, ())"
    by (simp add: example_objective_def)
  have a5: "example_settings None 0 0
            = (case None of None \<Rightarrow> DefaultSettings example_env | Some s \<Rightarrow> s)"
    by (simp add: example_env_def)
  have a6: "(case Recorder (example_settings None 0 0) of
               None \<Rightarrow> (None, ())
             | Some recorder \<Rightarrow> Recorder_Init recorder (FunctionInfo.truncate ?f) ())
            = (None, ())"
    by (simp add: example_settings_def)
  have a7: "getStartingLocation ?f example_method [Finite 0] zero_Stats (example_settings None 0 0)
            = Inr ((?L, FuncGradEvaluation, Some ErrInf),
                   zero_Stats\<lparr>FuncEvaluations := 1, GradEvaluations := 1\<rparr>)"
    by (simp add: getStartingLocation_def example_defs evaluate_defs IsNaN_def IsInf_def)
  have a8: "IsNaN (F ?L) \<or> IsInf (F ?L) 1 \<or>
            (\<exists>v \<in> set (elems (Gradient ?L)). IsNaN v \<or> IsInf v 0)"
    by (simp add: example_location_def IsInf_def)
  have a9: "IsInf (F ?L) 1" by (simp add: example_location_def IsInf_def)
  show ?thesis
    using Local_starting_sentinel [OF a1 a2 a3 a4 a5 a6 a7 a8] a9 by simp
qed

text \<open>
  The claim as stated has the caller receive a best-effort Result alongside the error.
  For an objective whose value at the starting point is a NaN, \<^verbatim>\<open>Local\<close> returns the error
  \<^verbatim>\<open>ErrNaN\<close> and a \<^verbatim>\<open>nil\<close> Result.
\<close>

theorem Local_starting_sentinel_counterexample:
  "Local example_env (example_objective True False False False NaN) [Finite 0] None None ()
     = Some (Inr \<lparr>out_result = None, out_err = Some ErrNaN, out_world = (), out_log = []\<rparr>)"
  by (simp add: Local_def getDefaultMethod_def getStartingLocation_def example_defs evaluate_defs
      IsNaN_def)

subsection \<open>The default method (C8)\<close>

text \<open>
  Claim C8 says that a \<^verbatim>\<open>nil\<close> method selects BFGS whenever the capability set makes
  gradient information available. \<^verbatim>\<open>getDefaultMethod\<close> tests the bare gradient and the
  combined function+gradient capabilities only. For an objective whose gradient comes
  from the combined function+gradient+Hessian capability alone, \<^verbatim>\<open>Local\<close> with a \<^verbatim>\<open>nil\<close>
  method panics with the message for gradient-free objectives, although \<^verbatim>\<open>evaluate\<close>
  serves a gradient request for the same objective through the triple call.
\<close>

theorem getDefaultMethod_triple_only:
  "Local example_env (example_objective False False False True (Finite 1)) [Finite 0] None None ()
     = Some (Inl PanicGradientFree) \<and>
   evaluate (example_objective False False False True (Finite 1)) GradEvaluation [Finite 0]
     (example_location (Finite 5) (Some [Finite 0])) zero_Stats
     = (None, \<lparr>X = [Finite 0], F = Finite 1, Gradient = Some [Finite 2],
               Hessian = Some [[Finite 0]]\<rparr>,
        zero_Stats\<lparr>FuncGradHessEvaluations := 1\<rparr>)"
  by (simp add: Local_def getDefaultMethod_def example_defs evaluate_defs)

subsection \<open>The order of convergence check and progress report (C9)\<close>

text \<open>What one pass through the loop body appends to the log, and hence what the loop and
  \<^verbatim>\<open>minimize\<close> append: by induction along the iterations of the loop.\<close>

lemma checked_before_recorded_Cons:
  "checked_before_recorded es \<Longrightarrow> checked_before_recorded (CheckConvergence l it # es)"
  by (cases es rule: checked_before_recorded.cases) auto

lemma checked_before_recorded_append:
  "checked_before_recorded es \<Longrightarrow> checked_before_recorded es' \<Longrightarrow>
   checked_before_recorded (es @ es')"
  by (induction es rule: checked_before_recorded.induct)
     (auto simp: checked_before_recorded_Cons)

lemma minimize_body_Continues_log:
  "minimize_body env settings method funcInfo s = Continues s' \<Longrightarrow>
   take (length (st_log s)) (st_log s') = st_log s \<and>
   checked_before_recorded (drop (length (st_log s)) (st_log s'))"
  unfolding minimize_body_def Let_def
  by (simp split: if_splits option.splits prod.splits) auto

lemma minimize_body_Returns_log:
  "minimize_body env settings method funcInfo s = Returns r \<Longrightarrow>
   take (length (st_log s)) (ret_log r) = st_log s \<and>
   checked_before_recorded (drop (length (st_log s)) (ret_log r))"
  unfolding minimize_body_def Let_def
  by (simp split: if_splits option.splits prod.splits) auto


lemma log_extension:
  "take (length tr) tr' = tr \<and> checked_before_recorded (drop (length tr) tr') \<Longrightarrow>
   \<exists>es. tr' = tr @ es \<and> checked_before_recorded es"
  by (metis append_take_drop_id)

lemma minimize_loop_log:
  assumes "minimize_loop env settings method funcInfo s = Some y"
  shows "\<forall>r. y = Inr r \<longrightarrow> (\<exists>es. ret_log r = st_log s @ es \<and> checked_before_recorded es)"
proof (rule minimize_loop.raw_induct
    [where P = "\<lambda>env settings method funcInfo s y.
                  \<forall>r. y = Inr r \<longrightarrow> (\<exists>es. ret_log r = st_log s @ es \<and> checked_before_recorded es)",
     OF _ assms])
  fix loop :: "'a Env \<Rightarrow> 'a Recorder Settings \<Rightarrow> 'a Method \<Rightarrow> 'a functionInfo \<Rightarrow> 'a loop_state
                 \<Rightarrow> (panic + 'a returned) option"
  fix env settings m funcInfo s y
  assume IH: "\<And>env settings m funcInfo s y. loop env settings m funcInfo s = Some y \<Longrightarrow>
                \<forall>r. y = Inr r \<longrightarrow> (\<exists>es. ret_log r = st_log s @ es \<and> checked_before_recorded es)"
    and step: "(case minimize_body env settings m funcInfo s of
                  Panics p \<Rightarrow> Some (Inl p)
                | Returns r \<Rightarrow> Some (Inr r)
                | Continues s' \<Rightarrow> loop env settings m funcInfo s') = Some y"
  show "\<forall>r. y = Inr r \<longrightarrow> (\<exists>es. ret_log r = st_log s @ es \<and> checked_before_recorded es)"
  proof (cases "minimize_body env settings m funcInfo s")
    case (Panics p)
    with step show ?thesis by auto
  next
    case (Returns r')
    from minimize_body_Returns_log [OF Returns, THEN log_extension] Returns step
    show ?thesis by auto
  next
    case (Continues s')
    with step have l: "loop env settings m funcInfo s' = Some y" by simp
    from minimize_body_Continues_log [OF Continues, THEN log_extension] obtain es' where
      es': "st_log s' = st_log s @ es'" "checked_before_recorded es'" by auto
    show ?thesis
    proof (intro allI impI)
      fix r assume "y = Inr r"
      with IH [OF l] obtain es where
        es: "ret_log r = st_log s' @ es" "checked_before_recorded es" by auto
      from es es' have "ret_log r = st_log s @ (es' @ es)" by simp
      moreover from es es' have "checked_before_recorded (es' @ es)"
        by (simp add: checked_before_recorded_append)
      ultimately show "\<exists>es. ret_log r = st_log s @ es \<and> checked_before_recorded es" by blast
    qed
  qed
qed

lemma minimize_log:
  assumes "minimize env settings method funcInfo stats optLoc w tr = Some (Inr r)"
  shows "\<exists>es. ret_log r = tr @ es \<and> checked_before_recorded es"
proof -
  obtain evalType iterType err loc xNext w'
    where i: "Method_Init method (copyLocation zero_Location optLoc)
                (FunctionInfo.truncate funcInfo)
                (replicate (length (X (copyLocation zero_Location optLoc))) (Finite 0)) w
              = ((evalType, iterType, err), loc, xNext, w')"
    by (metis prod_cases3)
  show ?thesis
  proof (cases err)
    case None
    with assms i have "minimize_loop env settings method funcInfo
        \<lparr>st_loc = loc, st_optLoc = optLoc, st_xNext = xNext, st_stats = stats,
         st_evalType = evalType, st_iterType = iterType, st_world = w', st_log = tr\<rparr>
        = Some (Inr r)"
      by (simp add: minimize_def Let_def)
    from minimize_loop_log [OF this] show ?thesis by simp
  next
    case (Some e)
    with assms i have "ret_log r = tr" by (auto simp add: minimize_def Let_def)
    then show ?thesis by simp
  qed
qed

lemma minimize_body_pass:
  "minimize_body env settings method funcInfo s = Continues s' \<Longrightarrow>
   \<exists>optLoc loc. st_log s' = st_log s @ CheckConvergence optLoc (st_iterType s) #
      (case Recorder settings of None \<Rightarrow> [] | Some _ \<Rightarrow> [Record loc (st_iterType s)])"
  unfolding minimize_body_def Let_def
  by (simp split: if_splits option.splits prod.splits) auto

text \<open>The log of a whole run, following \<^verbatim>\<open>Local\<close> through its early returns up to the
  call of \<^verbatim>\<open>minimize\<close> and the final report.\<close>

lemma Local_log_shape:
  assumes "Local env funcInfo initX settings method w = Some (Inr out)"
  shows "out_log out = [] \<or>
     (\<exists>loc es post. out_log out =
         (case Recorder (case settings of None \<Rightarrow> DefaultSettings env | Some s \<Rightarrow> s) of
            None \<Rightarrow> [] | Some _ \<Rightarrow> [Record loc InitIteration])
         @ [CheckConvergence loc InitIteration] @ es @ post
       \<and> checked_before_recorded es \<and> (post = [] \<or> (\<exists>l. post = [Record l PostIteration])))"
proof -
  let ?S = "case settings of None \<Rightarrow> DefaultSettings env | Some s \<Rightarrow> s"
  from assms have nz: "length initX \<noteq> 0"
    by (auto simp: Local_def split: if_splits)
  from assms nz obtain m where
    m: "(case method of None \<Rightarrow> getDefaultMethod env funcInfo | Some m \<Rightarrow> Inr m) = Inr m"
    by (auto simp: Local_def split: sum.splits)
  obtain e1 w1 where
    st: "(if IsStatuser funcInfo
          then (case statuser_Status funcInfo w of ((_, err), w) \<Rightarrow> (err, w))
          else (None, w)) = (e1, w1)"
    by (metis surj_pair)
  obtain e2 w2 where
    ri: "(case Recorder ?S of
            None \<Rightarrow> (None, w1)
          | Some recorder \<Rightarrow> Recorder_Init recorder (FunctionInfo.truncate funcInfo) w1)
         = (e2, w2)"
    by (metis surj_pair)
  have early: "out_log out = []"
    if "satisfies env funcInfo m \<noteq> None \<or> e1 \<noteq> None \<or> e2 \<noteq> None"
  proof (cases "satisfies env funcInfo m")
    case (Some e)
    with assms nz m show ?thesis by (auto simp: Local_def Let_def)
  next
    case None
    note sat = this
    show ?thesis
    proof (cases e1)
      case (Some e)
      with assms nz m sat st show ?thesis by (auto simp: Local_def Let_def)
    next
      case None
      with that sat obtain e where "e2 = Some e" by auto
      with assms nz m sat st None ri show ?thesis by (auto simp: Local_def Let_def)
    qed
  qed
  show ?thesis
  proof (cases "satisfies env funcInfo m = None \<and> e1 = None \<and> e2 = None")
    case False
    then have "out_log out = []" using early by blast
    then show ?thesis by simp
  next
    case True
    then have ok: "satisfies env funcInfo m = None" "e1 = None" "e2 = None" by simp_all
    show ?thesis
    proof (cases "getStartingLocation funcInfo m initX zero_Stats ?S")
      case (Inl p)
      with assms nz m st ri ok show ?thesis by (simp add: Local_def Let_def)
    next
      case (Inr x)
      then obtain loc evalType err stats where
        gs: "getStartingLocation funcInfo m initX zero_Stats ?S = Inr ((loc, evalType, err), stats)"
        by (metis prod_cases3 surj_pair)
      show ?thesis
      proof (cases err)
        case (Some e)
        with assms nz m st ri ok gs have "out_log out = []"
          by (auto simp: Local_def Let_def)
        then show ?thesis by simp
      next
        case None
        obtain t w3 where ts: "time_Since env w2 = (t, w3)" by (metis surj_pair)
        obtain e3 w4 tr0 where
          rec0: "(case Recorder ?S of
                    None \<Rightarrow> (None, w3, [])
                  | Some recorder \<Rightarrow>
                      (case Recorder_Record recorder loc evalType InitIteration
                              (stats\<lparr>Runtime := t\<rparr>) w3 of
                         (err, w) \<Rightarrow> (err, w, [Record loc InitIteration]))) = (e3, w4, tr0)"
          by (metis prod_cases3)
        have tr0: "tr0 = (case Recorder ?S of None \<Rightarrow> [] | Some _ \<Rightarrow> [Record loc InitIteration])"
          using rec0 by (auto split: option.splits prod.splits)
        let ?status = "checkConvergence loc InitIteration (stats\<lparr>Runtime := t\<rparr>) ?S"
        let ?tr1 = "tr0 @ [CheckConvergence loc InitIteration]"
        let ?R = "if ?status = NotTerminated \<and> e3 = None
                  then minimize env ?S m funcInfo (stats\<lparr>Runtime := t\<rparr>) loc w4 ?tr1
                  else Some (Inr \<lparr>ret_status = ?status, ret_err = e3, ret_optLoc = loc,
                                  ret_stats = stats\<lparr>Runtime := t\<rparr>, ret_world = w4,
                                  ret_log = ?tr1\<rparr>)"
        from assms nz m st ri ok gs None ts rec0 obtain r where
          R: "?R = Some (Inr r)"
          and out: "out_log out = ret_log r \<or>
                    out_log out = ret_log r @ [Record (ret_optLoc r) PostIteration]"
          by (auto simp: Local_def Let_def split: option.splits sum.splits prod.splits if_splits)
        have "\<exists>es. ret_log r = ?tr1 @ es \<and> checked_before_recorded es"
        proof (cases "?status = NotTerminated \<and> e3 = None")
          case True
          with R have "minimize env ?S m funcInfo (stats\<lparr>Runtime := t\<rparr>) loc w4 ?tr1
                         = Some (Inr r)" by simp
          then show ?thesis by (rule minimize_log)
        next
          case False
          with R have "ret_log r = ?tr1" by auto
          then show ?thesis by simp
        qed
        then obtain es where es: "ret_log r = ?tr1 @ es" "checked_before_recorded es" by blast
        from out show ?thesis
        proof
          assume "out_log out = ret_log r"
          with es tr0 have "out_log out =
              (case Recorder ?S of None \<Rightarrow> [] | Some _ \<Rightarrow> [Record loc InitIteration])
              @ [CheckConvergence loc InitIteration] @ es @ []" by simp
          with es(2) show ?thesis by blast
        next
          assume "out_log out = ret_log r @ [Record (ret_optLoc r) PostIteration]"
          with es tr0 have "out_log out =
              (case Recorder ?S of None \<Rightarrow> [] | Some _ \<Rightarrow> [Record loc InitIteration])
              @ [CheckConvergence loc InitIteration] @ es @ [Record (ret_optLoc r) PostIteration]"
            by simp
          with es(2) show ?thesis by blast
        qed
      qed
    qed
  qed
qed

text \<open>
  Claim C9, as amended. Inside the loop of \<^verbatim>\<open>minimize\<close>, in every pass that goes on to
  the next iteration, \<^verbatim>\<open>checkConvergence\<close> is called first and \<^verbatim>\<open>Recorder.Record\<close> (when
  a recorder is configured) directly after it, for the same iteration kind. For the
  starting point the order is the other way round: \<^verbatim>\<open>Local\<close> reports the starting
  Location to the recorder first and calls \<^verbatim>\<open>checkConvergence\<close> on it afterwards. So the
  log of every run that returns is empty (an early return) or consists of the report of
  the starting Location (with a recorder), its check, then the calls of the loop with
  each report directly after a check, then possibly the final \<^verbatim>\<open>PostIteration\<close> report.
  \<^verbatim>\<open>checkConvergence\<close> only reads its arguments: its value is a Status and nothing else.
\<close>

theorem Local_call_order:
  "(Local env funcInfo initX settings method w = Some (Inr out) \<longrightarrow>
      out_log out = [] \<or>
      (\<exists>loc es post. out_log out =
          (case Recorder (case settings of None \<Rightarrow> DefaultSettings env | Some s \<Rightarrow> s) of
             None \<Rightarrow> [] | Some _ \<Rightarrow> [Record loc InitIteration])
          @ [CheckConvergence loc InitIteration] @ es @ post
        \<and> checked_before_recorded es \<and> (post = [] \<or> (\<exists>l. post = [Record l PostIteration])))) \<and>
   (minimize_body env' settings' method' funcInfo' s = Continues s' \<longrightarrow>
      (\<exists>optLoc loc. st_log s' = st_log s @ CheckConvergence optLoc (st_iterType s) #
         (case Recorder settings' of None \<Rightarrow> [] | Some _ \<Rightarrow> [Record loc (st_iterType s)])))"
  using Local_log_shape [of env funcInfo initX settings "method" w out]
    minimize_body_pass [of env' settings' method' funcInfo' s s']
  by blast

text \<open>A run that stops at the starting point on its cap of one function evaluation, and
  one pass of the loop that goes on.\<close>

theorem Local_call_order_witness:
  "Local example_env (example_objective True False False False (Finite 1)) [Finite 0]
     (Some (example_settings (Some accepting_recorder) 1 0)) None ()
   = Some (Inr
       \<lparr>out_result = Some
          \<lparr>Result_Location = example_location (Finite 1) (Some [Finite 2]),
           Result_Stats = zero_Stats\<lparr>FuncEvaluations := 1, GradEvaluations := 1\<rparr>,
           Result_Status = FunctionEvaluationLimit\<rparr>,
        out_err = None, out_world = (),
        out_log =
          [Record (example_location (Finite 1) (Some [Finite 2])) InitIteration,
           CheckConvergence (example_location (Finite 1) (Some [Finite 2])) InitIteration,
           Record (example_location (Finite 1) (Some [Finite 2])) PostIteration]\<rparr>) \<and>
   (\<exists>loc es post.
      [Record (example_location (Finite 1) (Some [Finite 2])) InitIteration,
       CheckConvergence (example_location (Finite 1) (Some [Finite 2])) InitIteration,
       Record (example_location (Finite 1) (Some [Finite 2])) PostIteration]
      = [Record loc InitIteration] @ [CheckConvergence loc InitIteration] @ es @ post \<and>
      checked_before_recorded es \<and> (post = [] \<or> (\<exists>l. post = [Record l PostIteration]))) \<and>
   minimize_body example_env (example_settings (Some accepting_recorder) 0 0) example_method
     (example_objective True False False False (Finite 1)) example_state
   = Continues (example_state
       \<lparr>st_stats := zero_Stats\<lparr>Stats.MajorIterations := 1, FuncEvaluations := 1,
                                 GradEvaluations := 1\<rparr>,
        st_log := [CheckConvergence (example_location (Finite 1) (Some [Finite 2])) MajorIteration,
                   Record (example_location (Finite 1) (Some [Finite 2])) MajorIteration]\<rparr>) \<and>
   (\<exists>optLoc loc.
      [CheckConvergence (example_location (Finite 1) (Some [Finite 2])) MajorIteration,
       Record (example_location (Finite 1) (Some [Finite 2])) MajorIteration]
      = [CheckConvergence optLoc MajorIteration, Record loc MajorIteration])"
proof -
  have run: "Local example_env (example_objective True False False False (Finite 1)) [Finite 0]
     (Some (example_settings (Some accepting_recorder) 1 0)) None ()
   = Some (Inr
       \<lparr>out_result = Some
          \<lparr>Result_Location = example_location (Finite 1) (Some [Finite 2]),
           Result_Stats = zero_Stats\<lparr>FuncEvaluations := 1, GradEvaluations := 1\<rparr>,
           Result_Status = FunctionEvaluationLimit\<rparr>,
        out_err = None, out_world = (),
        out_log =
          [Record (example_location (Finite 1) (Some [Finite 2])) InitIteration,
           CheckConvergence (example_location (Finite 1) (Some [Finite 2])) InitIteration,
           Record (example_location (Finite 1) (Some [Finite 2])) PostIteration]\<rparr>)"
    by (simp add: driver_defs example_defs evaluate_defs)
  have pass: "minimize_body example_env (example_settings (Some accepting_recorder) 0 0)
       example_method (example_objective True False False False (Finite 1)) example_state
   = Continues (example_state
       \<lparr>st_stats := zero_Stats\<lparr>Stats.MajorIterations := 1, FuncEvaluations := 1,
                                 GradEvaluations := 1\<rparr>,
        st_log := [CheckConvergence (example_location (Finite 1) (Some [Finite 2])) MajorIteration,
                   Record (example_location (Finite 1) (Some [Finite 2])) MajorIteration]\<rparr>)"
    by (simp add: driver_defs example_defs evaluate_defs example_state_def)
  note T = Local_call_order
      [of example_env "example_objective True False False False (Finite 1)" "[Finite 0]"
          "Some (example_settings (Some accepting_recorder) 1 0)" None "()" _
          example_env "example_settings (Some accepting_recorder) 0 0" example_method
          "example_objective True False False False (Finite 1)" example_state]
  from T [THEN conjunct1, THEN mp, OF run] T [THEN conjunct2, THEN mp, OF pass] run pass
  show ?thesis
    by (simp add: example_settings_def example_state_def)
qed

text \<open>
  The claim as stated puts \<^verbatim>\<open>checkConvergence\<close> before the progress report for every
  produced location, the starting point included. In this run, with a recorder and a
  cap of one major iteration, the first call logged is the report of the starting
  Location, and its check comes second; inside the loop the check comes first.
\<close>

theorem Local_call_order_counterexample:
  "Local example_env (example_objective True False False False (Finite 1)) [Finite 0]
     (Some (example_settings (Some accepting_recorder) 0 1)) None ()
   = Some (Inr
       \<lparr>out_result = Some
          \<lparr>Result_Location = example_location (Finite 1) (Some [Finite 2]),
           Result_Stats = zero_Stats\<lparr>Stats.MajorIterations := 1, FuncEvaluations := 2,
                                     GradEvaluations := 2\<rparr>,
           Result_Status = IterationLimit\<rparr>,
        out_err = None, out_world = (),
        out_log =
          [Record (example_location (Finite 1) (Some [Finite 2])) InitIteration,
           CheckConvergence (example_location (Finite 1) (Some [Finite 2])) InitIteration,
           CheckConvergence (example_location (Finite 1) (Some [Finite 2])) MajorIteration,
           Record (example_location (Finite 1) (Some [Finite 2])) MajorIteration,
           Record (example_location (Finite 1) (Some [Finite 2])) PostIteration]\<rparr>)"
  by (simp add: driver_defs example_defs evaluate_defs minimize_loop.simps)

end
